theory Spec2Isabelle
  imports Complex_Main "HOL-Library.Multiset"
begin

section \<open>Values of the raw data\<close>

text \<open>
  The scraper reads JSON. An attribute value is a JSON scalar, so a Python value here is
  \<open>None\<close>, a \<open>bool\<close>, an unbounded \<open>int\<close>, a finite \<open>float\<close> or a
  \<open>str\<close>. A finite float is represented by the real number it denotes. The
  tokens \<open>NaN\<close>, \<open>Infinity\<close> and \<open>-Infinity\<close> are not JSON, though
  \<open>json.loads\<close> reads them: a response that holds one is outside this development.
  A string is a list of code points below 256. A dictionary is an association list read
  with \<open>map_of\<close>.
\<close>

datatype pyval = PNone | PBool bool | PInt int | PFloat real | PStr string

type_synonym pydict = "(string \<times> pyval) list"

datatype error = TypeError | ValueError | OverflowError | OSError | RuntimeError | URLError

text \<open>\<open>d.get(k)\<close>: the value stored under \<open>k\<close>, \<open>None\<close> when the key is absent.\<close>

definition get :: "pydict \<Rightarrow> string \<Rightarrow> pyval" where
  "get d k = (case map_of d k of None \<Rightarrow> PNone | Some v \<Rightarrow> v)"

text \<open>\<open>d.get(k, dflt)\<close>: the default replaces an absent key only, not a stored \<open>None\<close>.\<close>

definition get_default :: "pydict \<Rightarrow> string \<Rightarrow> pyval \<Rightarrow> pyval" where
  "get_default d k dflt = (case map_of d k of None \<Rightarrow> dflt | Some v \<Rightarrow> v)"

section \<open>What a run reads from outside\<close>

text \<open>
  A float that came out of \<open>float(...)\<close> may also be \<open>nan\<close> or an infinity
  (\<open>float("nan")\<close>, \<open>float("inf")\<close>); the three behave alike wherever the scraper
  looks at a coordinate (none equals \<open>0.0\<close>, none lies in a bounded interval), so they
  are one value here.
\<close>

datatype pyfloat = Finite real | NonFinite

text \<open>
  A sort key is a number, or an infinity when a product of floats overflows. Keys are
  ordered as Python compares numbers: by value, \<open>-inf\<close> first and \<open>inf\<close> last.
\<close>

datatype sortkey = MinusInf | Num real | PlusInf

instantiation sortkey :: linorder
begin

definition less_eq_sortkey :: "sortkey \<Rightarrow> sortkey \<Rightarrow> bool" where
  "less_eq_sortkey a b =
     (case a of
        MinusInf \<Rightarrow> True
      | Num x \<Rightarrow> (case b of MinusInf \<Rightarrow> False | Num y \<Rightarrow> x \<le> y | PlusInf \<Rightarrow> True)
      | PlusInf \<Rightarrow> (case b of PlusInf \<Rightarrow> True | _ \<Rightarrow> False))"

definition less_sortkey :: "sortkey \<Rightarrow> sortkey \<Rightarrow> bool" where
  "less_sortkey a b = ((a :: sortkey) \<le> b \<and> \<not> b \<le> a)"

instance
  by standard
    (auto simp: less_eq_sortkey_def less_sortkey_def split: sortkey.splits)

end

text \<open>\<open>-k\<close>\<close>

fun neg_key :: "sortkey \<Rightarrow> sortkey" where
  "neg_key MinusInf = PlusInf"
| "neg_key (Num x) = Num (- x)"
| "neg_key PlusInf = MinusInf"

text \<open>
  The clock and the floating-point arithmetic are inputs of a run:
  \<^item> \<open>now_day\<close> is the day of \<open>now_utc()\<close>, counted from 1970-01-01; one reading
    of the clock serves the whole run, and it is late enough in the years that
    \<open>datetime\<close> represents for the cutoff, 180 days earlier, to be one of its dates
    too. \<open>cutoff_ms\<close> is \<open>int(cutoff_dt.timestamp() * 1000)\<close>, which the code
    computes in doubles.
  \<^item> \<open>float_of_str\<close> is \<open>float(s)\<close> on a string, \<open>None\<close> where it raises
    \<open>ValueError\<close>; \<open>float_repr\<close> is \<open>str(x)\<close> on a finite float.
  \<^item> \<open>date_of_double x\<close> is what
    \<open>datetime.fromtimestamp(x / 1000.0, tz=timezone.utc).strftime("%Y-%m-%d")\<close> returns
    or raises for a number \<open>x\<close> that is not a whole number below \<open>2^53\<close>: the
    division and the rounding to microseconds are then inexact.
  \<^item> \<open>float_times x n\<close> is the product \<open>x * n\<close> of a float and an \<open>int\<close>, and
    \<open>float_plus k n\<close> the sum of a float and an \<open>int\<close>, which raises
    \<open>OverflowError\<close> when \<open>n\<close> is too large for a float.
  All of these round to 53 bits, which no definition over the reals computes, so every
  theorem holds for any such functions.
\<close>

record env =
  now_day :: int
  cutoff_ms :: int
  float_of_str :: "string \<Rightarrow> pyfloat option"
  float_repr :: "real \<Rightarrow> string"
  date_of_double :: "real \<Rightarrow> error + string"
  float_times :: "real \<Rightarrow> int \<Rightarrow> sortkey"
  float_plus :: "sortkey \<Rightarrow> int \<Rightarrow> error + sortkey"

section \<open>Python built-ins\<close>

text \<open>Truth value of a scalar: \<open>None\<close>, \<open>False\<close>, zero and the empty string are false.\<close>

fun truthy :: "pyval \<Rightarrow> bool" where
  "truthy PNone = False"
| "truthy (PBool b) = b"
| "truthy (PInt i) = (i \<noteq> 0)"
| "truthy (PFloat r) = (r \<noteq> 0)"
| "truthy (PStr s) = (s \<noteq> [])"

text \<open>\<open>a or b\<close>\<close>

definition py_or :: "pyval \<Rightarrow> pyval \<Rightarrow> pyval" where
  "py_or a b = (if truthy a then a else b)"

text \<open>
  \<open>isinstance(v, (int, float))\<close> together with the number it denotes; \<open>bool\<close> is a
  subclass of \<open>int\<close>. An \<open>int\<close> and a \<open>float\<close> compare by their exact values.
\<close>

fun numeric :: "pyval \<Rightarrow> real option" where
  "numeric (PBool b) = Some (if b then 1 else 0)"
| "numeric (PInt i) = Some (of_int i)"
| "numeric (PFloat r) = Some r"
| "numeric _ = None"

text \<open>White space as \<open>str.strip()\<close> sees it, among the code points below 256.\<close>

definition is_space :: "char \<Rightarrow> bool" where
  "is_space c = (c \<in> set [CHR 0x09, CHR 0x0A, CHR 0x0B, CHR 0x0C, CHR 0x0D,
                           CHR 0x1C, CHR 0x1D, CHR 0x1E, CHR 0x1F, CHR '' '',
                           CHR 0x85, CHR 0xA0])"

definition strip :: "string \<Rightarrow> string" where
  "strip s = rev (dropWhile is_space (rev (dropWhile is_space s)))"

definition digit_val :: "char \<Rightarrow> nat option" where
  "digit_val c = map_of (zip ''0123456789'' [0, 1, 2, 3, 4, 5, 6, 7, 8, 9]) c"

text \<open>Decimal digits, where a single underscore may stand between two digits.\<close>

fun digits_from :: "nat \<Rightarrow> string \<Rightarrow> nat option" where
  "digits_from acc [] = Some acc"
| "digits_from acc [c] =
     (case digit_val c of None \<Rightarrow> None | Some v \<Rightarrow> Some (10 * acc + v))"
| "digits_from acc (c # d # ds) =
     (if c = CHR ''_''
      then (case digit_val d of None \<Rightarrow> None | Some v \<Rightarrow> digits_from (10 * acc + v) ds)
      else (case digit_val c of
              None \<Rightarrow> None
            | Some v \<Rightarrow> digits_from (10 * acc + v) (d # ds)))"

definition parse_digits :: "string \<Rightarrow> nat option" where
  "parse_digits s =
     (case s of
        [] \<Rightarrow> None
      | c # cs \<Rightarrow> (case digit_val c of None \<Rightarrow> None | Some v \<Rightarrow> digits_from v cs))"

text \<open>
  \<open>int(s)\<close> on a string: surrounding white space, an optional sign, decimal digits.
  \<open>int\<close> first turns the white space above code point 127 into spaces and then
  skips the white space of C (space, tab, line feed, vertical tab, form feed, carriage
  return): the separators \<open>0x1C\<close> to \<open>0x1F\<close>, which \<open>str.strip()\<close> removes,
  are no white space to \<open>int\<close>. A string of more than 4300 digits raises
  \<open>ValueError\<close>, the limit of CPython (from 3.11 on) on conversions between
  \<open>int\<close> and \<open>str\<close>.
\<close>

definition is_int_space :: "char \<Rightarrow> bool" where
  "is_int_space c =
     (c \<in> set [CHR 0x09, CHR 0x0A, CHR 0x0B, CHR 0x0C, CHR 0x0D, CHR '' '',
                CHR 0x85, CHR 0xA0])"

definition MAX_STR_DIGITS :: nat where
  "MAX_STR_DIGITS = 4300"

definition int_of_str :: "string \<Rightarrow> error + int" where
  "int_of_str s =
     (let t = rev (dropWhile is_int_space (rev (dropWhile is_int_space s)));
          neg = (t \<noteq> [] \<and> hd t = CHR ''-'');
          body = (if t \<noteq> [] \<and> (hd t = CHR ''-'' \<or> hd t = CHR ''+'') then tl t else t)
      in case parse_digits body of
           None \<Rightarrow> Inl ValueError
         | Some n \<Rightarrow>
             (if MAX_STR_DIGITS < length (filter (\<lambda>c. c \<noteq> CHR ''_'') body)
              then Inl ValueError
              else Inr (if neg then - int n else int n)))"

text \<open>\<open>int(v)\<close>: a float is truncated towards zero.\<close>

fun py_int :: "pyval \<Rightarrow> error + int" where
  "py_int PNone = Inl TypeError"
| "py_int (PBool b) = Inr (if b then 1 else 0)"
| "py_int (PInt i) = Inr i"
| "py_int (PFloat r) = Inr (if 0 \<le> r then \<lfloor>r\<rfloor> else \<lceil>r\<rceil>)"
| "py_int (PStr s) = int_of_str s"

text \<open>
  \<open>float(v)\<close>. An \<open>int\<close> that rounds beyond the largest double raises
  \<open>OverflowError\<close>; below that the model keeps the integer itself where Python takes the
  nearest double (the same number up to \<open>2^53\<close>, and on the same side of every bound
  the scraper compares with).
\<close>

fun py_float :: "env \<Rightarrow> pyval \<Rightarrow> error + pyfloat" where
  "py_float e PNone = Inl TypeError"
| "py_float e (PBool b) = Inr (Finite (if b then 1 else 0))"
| "py_float e (PInt i) =
     (if 2 ^ 1024 - 2 ^ 970 \<le> \<bar>i\<bar> then Inl OverflowError else Inr (Finite (of_int i)))"
| "py_float e (PFloat r) = Inr (Finite r)"
| "py_float e (PStr s) =
     (case float_of_str e s of None \<Rightarrow> Inl ValueError | Some x \<Rightarrow> Inr x)"

fun digit_chars :: "nat \<Rightarrow> string" where
  "digit_chars n =
     (if n < 10 then [''0123456789'' ! n]
      else digit_chars (n div 10) @ [''0123456789'' ! (n mod 10)])"

text \<open>\<open>str(i)\<close> on an \<open>int\<close>\<close>

definition str_int :: "int \<Rightarrow> string" where
  "str_int i = (if i < 0 then CHR ''-'' # digit_chars (nat (- i)) else digit_chars (nat i))"

text \<open>
  Converting an \<open>int\<close> of more than 4300 digits to text raises \<open>ValueError\<close>, in
  \<open>str\<close> and in a format alike.
\<close>

definition too_long :: "int \<Rightarrow> bool" where
  "too_long i = (MAX_STR_DIGITS < length (digit_chars (nat \<bar>i\<bar>)))"

text \<open>
  The text of \<open>str(v)\<close>, which is also what an f-string field without a format gives;
  \<open>py_str_checked\<close> is \<open>str(v)\<close> with the exception it may raise.
\<close>

fun py_str :: "env \<Rightarrow> pyval \<Rightarrow> string" where
  "py_str e PNone = ''None''"
| "py_str e (PBool b) = (if b then ''True'' else ''False'')"
| "py_str e (PInt i) = str_int i"
| "py_str e (PFloat r) = float_repr e r"
| "py_str e (PStr s) = s"

definition py_str_checked :: "env \<Rightarrow> pyval \<Rightarrow> error + string" where
  "py_str_checked e v =
     (case v of
        PInt i \<Rightarrow> (if too_long i then Inl ValueError else Inr (py_str e v))
      | _ \<Rightarrow> Inr (py_str e v))"

text \<open>
  The format \<open>0wd\<close> of an \<open>int\<close>: zeros fill up to the width \<open>w\<close>, after the sign.
\<close>

definition zero_pad :: "nat \<Rightarrow> int \<Rightarrow> string" where
  "zero_pad w i =
     (if i < 0
      then (let ds = digit_chars (nat (- i)) in
            CHR ''-'' # replicate (w - 1 - length ds) CHR ''0'' @ ds)
      else (let ds = digit_chars (nat i) in replicate (w - length ds) CHR ''0'' @ ds))"

text \<open>\<open>format(int(v), "0wd")\<close>, with the exceptions of the conversion and of the format.\<close>

definition int_field :: "nat \<Rightarrow> pyval \<Rightarrow> error + string" where
  "int_field w v =
     (case py_int v of
        Inl exc \<Rightarrow> Inl exc
      | Inr i \<Rightarrow> (if too_long i then Inl ValueError else Inr (zero_pad w i)))"

section \<open>Dates\<close>

text \<open>
  The civil date of a day number counted from 1970-01-01, in the proleptic Gregorian
  calendar, as \<open>datetime\<close> computes it.
\<close>

definition civil_from_days :: "int \<Rightarrow> int \<times> int \<times> int" where
  "civil_from_days z0 =
     (let z = z0 + 719468;
          era = z div 146097;
          doe = z - era * 146097;
          yoe = (doe - doe div 1460 + doe div 36524 - doe div 146096) div 365;
          doy = doe - (365 * yoe + yoe div 4 - yoe div 100);
          mp = (5 * doy + 2) div 153;
          d = doy - (153 * mp + 2) div 5 + 1;
          m = (if mp < 10 then mp + 3 else mp - 9);
          y = yoe + era * 400 + (if m \<le> 2 then 1 else 0)
      in (y, m, d))"

definition iso_date :: "int \<times> int \<times> int \<Rightarrow> string" where
  "iso_date ymd =
     (case ymd of (y, m, d) \<Rightarrow> zero_pad 4 y @ ''-'' @ zero_pad 2 m @ ''-'' @ zero_pad 2 d)"

text \<open>
  \<open>now_utc().year\<close>, and the year and month of
  \<open>cutoff_dt = now_utc() - timedelta(days=TIME_WINDOW_MONTHS * 30)\<close>: the cutoff lies a
  whole number of days before now.
\<close>

definition TIME_WINDOW_MONTHS :: int where
  "TIME_WINDOW_MONTHS = 6"

definition now_year :: "env \<Rightarrow> int" where
  "now_year e = fst (civil_from_days (now_day e))"

definition cutoff_day :: "env \<Rightarrow> int" where
  "cutoff_day e = now_day e - TIME_WINDOW_MONTHS * 30"

definition cutoff_year :: "env \<Rightarrow> int" where
  "cutoff_year e = fst (civil_from_days (cutoff_day e))"

definition cutoff_month :: "env \<Rightarrow> int" where
  "cutoff_month e = fst (snd (civil_from_days (cutoff_day e)))"

text \<open>
  \<open>datetime.fromtimestamp(ms / 1000.0, tz=timezone.utc).strftime("%Y-%m-%d")\<close> for a
  number \<open>ms\<close> above \<open>10^9\<close>, with a 64-bit \<open>time_t\<close>. A whole number of
  milliseconds below \<open>2^53\<close>, an \<open>int\<close> or a float, is a double. Up to the end
  of year 9999 the quotient is below \<open>2^38\<close>, so the double division and the rounding
  to microseconds move the instant by less than 16 microseconds, while it lies a whole
  number of milliseconds into its day: the day is \<open>ms div 86400000\<close>. From the first
  instant of year 10000 on, a whole number of seconds, the conversion raises
  \<open>ValueError\<close>. Any other number is left to \<open>date_of_double\<close>.
\<close>

definition whole_ms :: "real \<Rightarrow> bool" where
  "whole_ms ms = (of_int \<lfloor>ms\<rfloor> = ms \<and> ms < 2 ^ 53)"

definition utc_date_of_ms :: "env \<Rightarrow> real \<Rightarrow> error + string" where
  "utc_date_of_ms e ms =
     (if whole_ms ms
      then (let ymd = civil_from_days (\<lfloor>ms\<rfloor> div 86400000) in
            if 9999 < fst ymd then Inl ValueError else Inr (iso_date ymd))
      else date_of_double e ms)"

definition MONTH_NAME_TO_NUM :: "(string \<times> int) list" where
  "MONTH_NAME_TO_NUM =
     [(''January'', 1), (''February'', 2), (''March'', 3), (''April'', 4),
      (''May'', 5), (''June'', 6), (''July'', 7), (''August'', 8),
      (''September'', 9), (''October'', 10), (''November'', 11), (''December'', 12)]"

section \<open>Field maps\<close>

definition id_fields :: "string list" where
  "id_fields = [''EVENT_UNIQUE_ID'', ''OBJECTID'']"

definition date_field :: "string list" where
  "date_field = [''OCC_DATE'', ''REPORT_DATE'']"

definition year_field :: "string list" where
  "year_field = [''OCC_YEAR'']"

definition month_field :: "string list" where
  "month_field = [''OCC_MONTH'']"

definition day_field :: "string list" where
  "day_field = [''OCC_DAY'', ''OCC_DOW'']"

definition hour_field :: "string list" where
  "hour_field = [''OCC_HOUR'']"

definition neighbourhood_fields :: "string list" where
  "neighbourhood_fields =
     [''NEIGHBOURHOOD_158'', ''NEIGHBOURHOOD_140'', ''HOOD_158'', ''NEIGHBOURHOOD'']"

definition premise_fields :: "string list" where
  "premise_fields = [''PREMISES_TYPE'', ''PREMISE_TYPE'']"

definition lat_fields :: "string list" where
  "lat_fields = [''LAT_WGS84'', ''Y'']"

definition lng_fields :: "string list" where
  "lng_fields = [''LONG_WGS84'', ''X'']"

definition status_fields :: "string list" where
  "status_fields = [''STATUS'']"

definition division_fields :: "string list" where
  "division_fields = [''DIVISION'']"

definition location_fields :: "string list" where
  "location_fields = [''LOCATION_TYPE'']"

section \<open>The field resolver\<close>

text \<open>
  \<^verbatim>\<open>
  def _first_of(attrs, field_names, default=None):
      for name in field_names:
          val = attrs.get(name)
          if val is not None:
              return val
      return default
  \<close>
\<close>

fun first_of :: "pydict \<Rightarrow> string list \<Rightarrow> pyval \<Rightarrow> pyval" where
  "first_of attrs [] dflt = dflt"
| "first_of attrs (name # field_names) dflt =
     (let val = get attrs name in
      if val \<noteq> PNone then val else first_of attrs field_names dflt)"

text \<open>
  The resolver in the words of its contract: look for the first candidate key that the
  mapping holds with a non-null value; answer its value, or the default when there is none.
\<close>

definition present_non_null :: "pydict \<Rightarrow> string \<Rightarrow> bool" where
  "present_non_null attrs k =
     (case map_of attrs k of None \<Rightarrow> False | Some v \<Rightarrow> v \<noteq> PNone)"

definition resolve_spec :: "pydict \<Rightarrow> string list \<Rightarrow> pyval \<Rightarrow> pyval" where
  "resolve_spec attrs candidateKeys dflt =
     (case find (present_non_null attrs) candidateKeys of
        None \<Rightarrow> dflt
      | Some k \<Rightarrow> (case map_of attrs k of None \<Rightarrow> dflt | Some v \<Rightarrow> v))"

section \<open>Month and date normalisation\<close>

text \<open>
  \<^verbatim>\<open>
  def parse_month(raw_month):
      if isinstance(raw_month, (int, float)):
          return int(raw_month)
      if isinstance(raw_month, str):
          return MONTH_NAME_TO_NUM.get(raw_month, 1)
      return 1
  \<close>
\<close>

fun parse_month :: "pyval \<Rightarrow> int" where
  "parse_month (PBool b) = (if b then 1 else 0)"
| "parse_month (PInt i) = i"
| "parse_month (PFloat r) = (if 0 \<le> r then \<lfloor>r\<rfloor> else \<lceil>r\<rceil>)"
| "parse_month (PStr s) = (case map_of MONTH_NAME_TO_NUM s of None \<Rightarrow> 1 | Some n \<Rightarrow> n)"
| "parse_month PNone = 1"

text \<open>
  \<^verbatim>\<open>
  def parse_date_string(raw_date, year, month, day):
      if isinstance(raw_date, (int, float)) and raw_date > 1_000_000_000:
          try:
              dt = datetime.fromtimestamp(raw_date / 1000.0, tz=timezone.utc)
              return dt.strftime("%Y-%m-%d")
          except (OSError, ValueError):
              pass
      if isinstance(raw_date, str) and len(raw_date) >= 10:
          return raw_date[:10]
      try:
          return f"{int(year):04d}-{int(month):02d}-{int(day):02d}"
      except (TypeError, ValueError):
          return f"{now_utc().year}-01-01"
  \<close>
\<close>

definition is_epoch_ms :: "pyval \<Rightarrow> bool" where
  "is_epoch_ms raw_date =
     (case numeric raw_date of None \<Rightarrow> False | Some v \<Rightarrow> 1000000000 < v)"

definition default_date :: "env \<Rightarrow> string" where
  "default_date e = str_int (now_year e) @ ''-01-01''"

definition date_from_components :: "env \<Rightarrow> pyval \<Rightarrow> pyval \<Rightarrow> pyval \<Rightarrow> error + string" where
  "date_from_components e year month day =
     (case int_field 4 year of
        Inl err \<Rightarrow>
          (if err = TypeError \<or> err = ValueError then Inr (default_date e) else Inl err)
      | Inr ys \<Rightarrow>
     (case int_field 2 month of
        Inl err \<Rightarrow>
          (if err = TypeError \<or> err = ValueError then Inr (default_date e) else Inl err)
      | Inr ms \<Rightarrow>
     (case int_field 2 day of
        Inl err \<Rightarrow>
          (if err = TypeError \<or> err = ValueError then Inr (default_date e) else Inl err)
      | Inr ds \<Rightarrow> Inr (ys @ ''-'' @ ms @ ''-'' @ ds))))"

definition date_after_epoch :: "env \<Rightarrow> pyval \<Rightarrow> pyval \<Rightarrow> pyval \<Rightarrow> pyval \<Rightarrow> error + string" where
  "date_after_epoch e raw_date year month day =
     (case raw_date of
        PStr s \<Rightarrow>
          (if 10 \<le> length s then Inr (take 10 s) else date_from_components e year month day)
      | _ \<Rightarrow> date_from_components e year month day)"

definition parse_date_string :: "env \<Rightarrow> pyval \<Rightarrow> pyval \<Rightarrow> pyval \<Rightarrow> pyval \<Rightarrow> error + string" where
  "parse_date_string e raw_date year month day =
     (if is_epoch_ms raw_date
      then (case utc_date_of_ms e (the (numeric raw_date)) of
              Inr s \<Rightarrow> Inr s
            | Inl err \<Rightarrow>
                (if err = OSError \<or> err = ValueError
                 then date_after_epoch e raw_date year month day
                 else Inl err))
      else date_after_epoch e raw_date year month day)"

section \<open>The record transformer\<close>

text \<open>
  A raw feature: the attribute mapping and the geometry, which is \<open>None\<close> when the
  feature has no \<open>geometry\<close> key or a null one.
\<close>

record feature =
  attributes :: pydict
  geometry :: "pydict option"

record clean_record =
  rec_id :: string
  rec_type :: string
  rec_date :: string
  rec_year :: int
  rec_month :: int
  rec_day :: int
  rec_hour :: int
  rec_neighbourhood :: string
  rec_premiseType :: string
  rec_lat :: pyfloat
  rec_lng :: pyfloat
  rec_status :: string

text \<open>The list built by a run and the three counters it prints.\<close>

record run_state =
  clean_records :: "clean_record list"
  discarded_coords :: nat
  discarded_date :: nat
  discarded_other :: nat

datatype outcome = BadCoords | OutOfWindow | Emit clean_record

text \<open>
  \<open>round(x, 6)\<close>: the nearest multiple of \<open>10^-6\<close>, ties to the even one. Python
  returns the double nearest to it; a bound with at most six decimals is kept either way.
\<close>

definition round_half_even :: "real \<Rightarrow> int" where
  "round_half_even x =
     (let f = \<lfloor>x\<rfloor>; d = x - of_int f in
      if d < 1 / 2 then f else if 1 / 2 < d then f + 1 else if even f then f else f + 1)"

fun round6 :: "pyfloat \<Rightarrow> pyfloat" where
  "round6 (Finite x) = Finite (of_int (round_half_even (x * 1000000)) / 1000000)"
| "round6 NonFinite = NonFinite"

text \<open>\<open>lat == 0.0 and lng == 0.0\<close>\<close>

definition both_zero :: "pyfloat \<Rightarrow> pyfloat \<Rightarrow> bool" where
  "both_zero la lo = (la = Finite 0 \<and> lo = Finite 0)"

text \<open>\<open>41.0 <= lat <= 57.0 and -95.0 <= lng <= -73.0\<close>\<close>

fun in_box :: "pyfloat \<Rightarrow> pyfloat \<Rightarrow> bool" where
  "in_box (Finite la) (Finite lo) = (41 \<le> la \<and> la \<le> 57 \<and> - 95 \<le> lo \<and> lo \<le> - 73)"
| "in_box _ _ = False"

text \<open>
  \<^verbatim>\<open>
  lat = geometry.get("y") if geometry else None
  lng = geometry.get("x") if geometry else None
  if lat is None or lng is None:
      lat = _first_of(attrs, FIELD_MAP["lat_fields"])
      lng = _first_of(attrs, FIELD_MAP["lng_fields"])
  try:
      lat = float(lat) if lat is not None else 0.0
      lng = float(lng) if lng is not None else 0.0
  except (TypeError, ValueError):
      lat, lng = 0.0, 0.0
  \<close>
\<close>

definition raw_coords :: "feature \<Rightarrow> pyval \<times> pyval" where
  "raw_coords f =
     (let lat = (case geometry f of
                   None \<Rightarrow> PNone
                 | Some g \<Rightarrow> (if g \<noteq> [] then get g ''y'' else PNone));
          lng = (case geometry f of
                   None \<Rightarrow> PNone
                 | Some g \<Rightarrow> (if g \<noteq> [] then get g ''x'' else PNone))
      in if lat = PNone \<or> lng = PNone
         then (first_of (attributes f) lat_fields PNone,
               first_of (attributes f) lng_fields PNone)
         else (lat, lng))"

definition resolve_coords :: "env \<Rightarrow> feature \<Rightarrow> error + pyfloat \<times> pyfloat" where
  "resolve_coords e f =
     (case raw_coords f of (lat, lng) \<Rightarrow>
      (case (if lat \<noteq> PNone then py_float e lat else Inr (Finite 0)) of
         Inl err \<Rightarrow>
           (if err = TypeError \<or> err = ValueError then Inr (Finite 0, Finite 0)
            else Inl err)
       | Inr la \<Rightarrow>
      (case (if lng \<noteq> PNone then py_float e lng else Inr (Finite 0)) of
         Inl err \<Rightarrow>
           (if err = TypeError \<or> err = ValueError then Inr (Finite 0, Finite 0)
            else Inl err)
       | Inr lo \<Rightarrow> Inr (la, lo))))"

text \<open>
  \<^verbatim>\<open>
  try:
      record_year = int(year) if year else 0
      record_month = int(month) if month else 0
      record_ym = record_year * 100 + record_month
      cutoff_ym = cutoff_year * 100 + cutoff_month
      if record_ym < cutoff_ym:
          discarded_date += 1
          continue
  except (TypeError, ValueError):
      pass  # keep records we can't date-check
  \<close>
  The answer is whether the record is discarded; \<open>month\<close> is the integer that
  \<open>parse_month\<close> returned.
\<close>

definition outside_window :: "env \<Rightarrow> pyval \<Rightarrow> int \<Rightarrow> error + bool" where
  "outside_window e year month =
     (case (if truthy year then py_int year else Inr 0) of
        Inl err \<Rightarrow> (if err = TypeError \<or> err = ValueError then Inr False else Inl err)
      | Inr record_year \<Rightarrow>
          (let record_month = (if month \<noteq> 0 then month else 0);
               record_ym = record_year * 100 + record_month;
               cutoff_ym = cutoff_year e * 100 + cutoff_month e
           in Inr (record_ym < cutoff_ym)))"

text \<open>
  \<^verbatim>\<open>
  clean_records.append({
      "id": f"{theft_type}-{record_id}",
      "type": theft_type,
      "date": date_str,
      "year": int(year) if year else now_utc().year,
      "month": month,
      "day": int(day) if day else 1,
      "hour": int(hour) if hour else 0,
      "neighbourhood": str(neighbourhood).strip(),
      "premiseType": str(premise_type).strip(),
      "lat": round(lat, 6),
      "lng": round(lng, 6),
      "status": str(status).strip(),
  })
  \<close>
  No \<open>try\<close> surrounds the three \<open>int(...)\<close> calls, nor the four conversions
  to text.
\<close>

definition build_record ::
  "env \<Rightarrow> string \<Rightarrow> pydict \<Rightarrow> pyval \<Rightarrow> string \<Rightarrow> pyval \<Rightarrow> int \<Rightarrow> pyfloat \<Rightarrow> pyfloat
     \<Rightarrow> error + clean_record" where
  "build_record e theft_type attrs record_id date_str year month lat lng =
     (let day = first_of attrs day_field (PInt 1);
          hour = first_of attrs hour_field (PInt 12);
          neighbourhood = first_of attrs neighbourhood_fields (PStr ''Unknown'');
          premise_type = first_of attrs premise_fields (PStr ''Unknown'');
          status = first_of attrs status_fields (PStr ''Unknown'')
      in
      (case py_str_checked e record_id of
         Inl err \<Rightarrow> Inl err
       | Inr id_text \<Rightarrow>
      (case (if truthy year then py_int year else Inr (now_year e)) of
         Inl err \<Rightarrow> Inl err
       | Inr y \<Rightarrow>
      (case (if truthy day then py_int day else Inr 1) of
         Inl err \<Rightarrow> Inl err
       | Inr d \<Rightarrow>
      (case (if truthy hour then py_int hour else Inr 0) of
         Inl err \<Rightarrow> Inl err
       | Inr h \<Rightarrow>
      (case py_str_checked e neighbourhood of
         Inl err \<Rightarrow> Inl err
       | Inr neighbourhood_text \<Rightarrow>
      (case py_str_checked e premise_type of
         Inl err \<Rightarrow> Inl err
       | Inr premise_text \<Rightarrow>
      (case py_str_checked e status of
         Inl err \<Rightarrow> Inl err
       | Inr status_text \<Rightarrow>
           Inr \<lparr>rec_id = theft_type @ ''-'' @ id_text,
                rec_type = theft_type,
                rec_date = date_str,
                rec_year = y,
                rec_month = month,
                rec_day = d,
                rec_hour = h,
                rec_neighbourhood = strip neighbourhood_text,
                rec_premiseType = strip premise_text,
                rec_lat = round6 lat,
                rec_lng = round6 lng,
                rec_status = strip status_text\<rparr>))))))))"

text \<open>
  The body of the loop over \<open>raw_features\<close>, for one feature; \<open>n\<close> is
  \<open>len(clean_records)\<close> when the feature is reached.
\<close>

definition process_one :: "env \<Rightarrow> string \<Rightarrow> nat \<Rightarrow> feature \<Rightarrow> error + outcome" where
  "process_one e theft_type n f =
     (case resolve_coords e f of
        Inl err \<Rightarrow> Inl err
      | Inr (lat, lng) \<Rightarrow>
          if both_zero lat lng then Inr BadCoords
          else if \<not> in_box lat lng then Inr BadCoords
          else
            (let attrs = attributes f;
                 record_id = first_of attrs id_fields (PStr (str_int (int n)));
                 raw_date = first_of attrs date_field (PStr []);
                 year = first_of attrs year_field (PInt (now_year e));
                 raw_month = first_of attrs month_field (PInt 1);
                 day = first_of attrs day_field (PInt 1);
                 month = parse_month raw_month
             in
             (case parse_date_string e raw_date year (PInt month) day of
                Inl err \<Rightarrow> Inl err
              | Inr date_str \<Rightarrow>
             (case outside_window e year month of
                Inl err \<Rightarrow> Inl err
              | Inr True \<Rightarrow> Inr OutOfWindow
              | Inr False \<Rightarrow>
             (case build_record e theft_type attrs record_id date_str year month lat lng of
                Inl err \<Rightarrow> Inl err
              | Inr r \<Rightarrow> Inr (Emit r))))))"

fun process_loop :: "env \<Rightarrow> string \<Rightarrow> feature list \<Rightarrow> run_state \<Rightarrow> error + run_state" where
  "process_loop e theft_type [] st = Inr st"
| "process_loop e theft_type (f # fs) st =
     (case process_one e theft_type (length (clean_records st)) f of
        Inl err \<Rightarrow> Inl err
      | Inr BadCoords \<Rightarrow>
          process_loop e theft_type fs (st\<lparr>discarded_coords := discarded_coords st + 1\<rparr>)
      | Inr OutOfWindow \<Rightarrow>
          process_loop e theft_type fs (st\<lparr>discarded_date := discarded_date st + 1\<rparr>)
      | Inr (Emit r) \<Rightarrow>
          process_loop e theft_type fs (st\<lparr>clean_records := clean_records st @ [r]\<rparr>))"

definition process_features :: "env \<Rightarrow> feature list \<Rightarrow> string \<Rightarrow> error + run_state" where
  "process_features e raw_features theft_type =
     process_loop e theft_type raw_features
       \<lparr>clean_records = [], discarded_coords = 0, discarded_date = 0, discarded_other = 0\<rparr>"

section \<open>The paginated fetcher\<close>

text \<open>
  The remote service is a black box: \<open>http\<close> is what
  \<open>http_get_json(endpoint_url, params)\<close> answers for the request parameters, after its
  retries: the parsed response, or the exception it raises. Within one fetch no two requests
  have the same parameters, so a function of the parameters covers every sequence of
  answers. Of a response the fetcher reads the feature list, the truth value of
  \<open>exceededTransferLimit\<close> (false when absent) and, for discovery, the names in
  \<open>fields\<close> (here \<open>fields_meta\<close>).
\<close>

record response =
  features :: "feature list"
  exceededTransferLimit :: bool
  fields_meta :: "string list"

type_synonym params = "(string \<times> string) list"

type_synonym service = "params \<Rightarrow> error + response"

definition PAGE_SIZE :: nat where
  "PAGE_SIZE = 2000"

text \<open>
  \<^verbatim>\<open>
  def discover_fields(endpoint_url):
      try:
          params = {"where": "1=1", "outFields": "*", "f": "json",
                    "resultRecordCount": "1", "resultOffset": "0"}
          data = http_get_json(endpoint_url, params)
          features = data.get("features", [])
          if features:
              attrs = features[0].get("attributes", {})
              return list(attrs.keys())
          fields_meta = data.get("fields", [])
          if fields_meta:
              return [f["name"] for f in fields_meta]
          return []
      except Exception as exc:
          return []
  \<close>
\<close>

definition discover_params :: params where
  "discover_params =
     [(''where'', ''1=1''), (''outFields'', ''*''), (''f'', ''json''),
      (''resultRecordCount'', ''1''), (''resultOffset'', ''0'')]"

definition discover_fields :: "service \<Rightarrow> string list" where
  "discover_fields http =
     (case http discover_params of
        Inl exc \<Rightarrow> []
      | Inr data \<Rightarrow>
          (case features data of
             f # fs \<Rightarrow> map fst (attributes f)
           | [] \<Rightarrow> fields_meta data))"

text \<open>
  \<^verbatim>\<open>
  def build_where_clauses(theft_type, available_fields):
      cutoff_dt = now_utc() - timedelta(days=TIME_WINDOW_MONTHS * 30)
      cutoff_year = cutoff_dt.year
      clauses = []
      if "OCC_YEAR" in available_fields:
          clauses.append((f"OCC_YEAR >= {cutoff_year}", f"year >= {cutoff_year}"))
      if "OCC_DATE" in available_fields:
          cutoff_ms = int(cutoff_dt.timestamp() * 1000)
          clauses.append((f"OCC_DATE >= {cutoff_ms}", f"OCC_DATE epoch >= {cutoff_ms}"))
      if "REPORT_DATE" in available_fields:
          cutoff_ms = int(cutoff_dt.timestamp() * 1000)
          clauses.append((f"REPORT_DATE >= {cutoff_ms}", f"REPORT_DATE epoch >= {cutoff_ms}"))
      clauses.append(("1=1", "unfiltered (all records)"))
      return clauses
  \<close>
\<close>

definition build_where_clauses :: "env \<Rightarrow> string \<Rightarrow> string list \<Rightarrow> (string \<times> string) list" where
  "build_where_clauses e theft_type available_fields =
     (if ''OCC_YEAR'' \<in> set available_fields
      then [(''OCC_YEAR >= '' @ str_int (cutoff_year e), ''year >= '' @ str_int (cutoff_year e))]
      else [])
     @ (if ''OCC_DATE'' \<in> set available_fields
        then [(''OCC_DATE >= '' @ str_int (cutoff_ms e),
               ''OCC_DATE epoch >= '' @ str_int (cutoff_ms e))]
        else [])
     @ (if ''REPORT_DATE'' \<in> set available_fields
        then [(''REPORT_DATE >= '' @ str_int (cutoff_ms e),
               ''REPORT_DATE epoch >= '' @ str_int (cutoff_ms e))]
        else [])
     @ [(''1=1'', ''unfiltered (all records)'')]"

text \<open>The parameters of one page request; no \<open>orderByFields\<close> is ever sent.\<close>

definition page_params :: "string \<Rightarrow> nat \<Rightarrow> params" where
  "page_params where_clause offset =
     [(''where'', where_clause), (''outFields'', ''*''), (''outSR'', ''4326''),
      (''f'', ''json''), (''resultRecordCount'', str_int (int PAGE_SIZE)),
      (''resultOffset'', str_int (int offset))]"

text \<open>
  How the paging of one strategy ends: the \<open>while\<close> loop is left by a \<open>break\<close>, or
  an exception leaves the \<open>try\<close>.
\<close>

datatype status = Completed | Raised error

text \<open>
  \<^verbatim>\<open>
  while True:
      params = {...}
      data = http_get_json(endpoint_url, params)
      features = data.get("features", [])
      count = len(features)
      if count == 0:
          break
      all_features.extend(features)
      offset += PAGE_SIZE
      if len(all_features) >= 100_000:
          break
      if not data.get("exceededTransferLimit", False) and count < PAGE_SIZE:
          break
  \<close>
  The loop from a given offset and accumulator. The result is how it ended, the
  accumulator at that moment (\<open>extend\<close> changes the list in place, so an exception leaves
  what was accumulated), and the offsets it requested, in order.
\<close>

function paginate ::
  "service \<Rightarrow> string \<Rightarrow> nat \<Rightarrow> feature list \<Rightarrow> status \<times> feature list \<times> nat list" where
  "paginate http where_clause offset all_features =
     (case http (page_params where_clause offset) of
        Inl exc \<Rightarrow> (Raised exc, all_features, [offset])
      | Inr data \<Rightarrow>
          (if length (features data) = 0 then (Completed, all_features, [offset])
           else if 100000 \<le> length (all_features @ features data)
           then (Completed, all_features @ features data, [offset])
           else if \<not> exceededTransferLimit data \<and> length (features data) < PAGE_SIZE
           then (Completed, all_features @ features data, [offset])
           else (case paginate http where_clause (offset + PAGE_SIZE)
                        (all_features @ features data) of
                   (s, fs, offsets) \<Rightarrow> (s, fs, offset # offsets))))"
  by pat_completeness auto
termination
  by (relation "measure (\<lambda>(http, where_clause, offset, all_features).
        100000 - length all_features)") (auto simp: neq_Nil_conv)

declare paginate.simps [simp del]

text \<open>
  \<^verbatim>\<open>
  all_features = []
  for where_clause, description in where_strategies:
      all_features = []
      offset = 0
      try:
          while True: ...
          if len(all_features) > 0:
              break
          else:
              success = False
      except Exception as exc:
          success = False
          continue
  \<close>
  The result is \<open>all_features\<close> after the loop and the page requests made, each with
  its \<open>where\<close> clause.
\<close>

fun try_strategies ::
  "service \<Rightarrow> (string \<times> string) list \<Rightarrow> feature list
     \<Rightarrow> feature list \<times> (string \<times> nat) list" where
  "try_strategies http [] all_features = (all_features, [])"
| "try_strategies http ((where_clause, description) # rest) all_features =
     (case paginate http where_clause 0 [] of
        (Raised exc, fs, offsets) \<Rightarrow>
          (case try_strategies http rest fs of
             (fs', reqs) \<Rightarrow> (fs', map (Pair where_clause) offsets @ reqs))
      | (Completed, fs, offsets) \<Rightarrow>
          (if 0 < length fs then (fs, map (Pair where_clause) offsets)
           else (case try_strategies http rest fs of
                   (fs', reqs) \<Rightarrow> (fs', map (Pair where_clause) offsets @ reqs))))"

text \<open>
  \<^verbatim>\<open>
  def sort_key(feature):
      attrs = feature.get("attributes", {})
      occ_date = attrs.get("OCC_DATE") or attrs.get("REPORT_DATE")
      if isinstance(occ_date, (int, float)) and occ_date > 1_000_000_000:
          return -occ_date
      year = attrs.get("OCC_YEAR", 0) or 0
      month = attrs.get("OCC_MONTH", "")
      if isinstance(month, str):
          month = MONTH_NAME_TO_NUM.get(month, 0)
      day = attrs.get("OCC_DAY", 0) or 0
      hour = attrs.get("OCC_HOUR", 0) or 0
      return -(year * 100000000 + int(month or 0) * 1000000
               + int(day or 0) * 10000 + int(hour or 0) * 100)
  \<close>
  A key is a number; an \<open>int\<close> and a \<open>float\<close> compare by value. With an
  \<open>int\<close> year the composite is computed in integers, exactly; with a float year each
  operation is one of doubles. A year that is a string makes the first \<open>+\<close> raise
  \<open>TypeError\<close>, after the month has been converted.
\<close>

definition sort_month :: "pydict \<Rightarrow> pyval" where
  "sort_month attrs =
     (case get_default attrs ''OCC_MONTH'' (PStr []) of
        PStr s \<Rightarrow> PInt (case map_of MONTH_NAME_TO_NUM s of None \<Rightarrow> 0 | Some n \<Rightarrow> n)
      | v \<Rightarrow> v)"

text \<open>The value of an \<open>int\<close> (a \<open>bool\<close> is one).\<close>

fun int_value :: "pyval \<Rightarrow> int option" where
  "int_value (PBool b) = Some (if b then 1 else 0)"
| "int_value (PInt i) = Some i"
| "int_value _ = None"

definition sort_key_py :: "env \<Rightarrow> feature \<Rightarrow> error + sortkey" where
  "sort_key_py e feature =
     (let attrs = attributes feature;
          occ_date = py_or (get attrs ''OCC_DATE'') (get attrs ''REPORT_DATE'')
      in if is_epoch_ms occ_date then Inr (Num (- the (numeric occ_date)))
         else
           (let year = py_or (get_default attrs ''OCC_YEAR'' (PInt 0)) (PInt 0);
                month = sort_month attrs;
                day = py_or (get_default attrs ''OCC_DAY'' (PInt 0)) (PInt 0);
                hour = py_or (get_default attrs ''OCC_HOUR'' (PInt 0)) (PInt 0)
            in
            (case py_int (py_or month (PInt 0)) of
               Inl exc \<Rightarrow> Inl exc
             | Inr m \<Rightarrow>
            (case year of
               PFloat x \<Rightarrow>
                 (case float_plus e (float_times e x 100000000) (m * 1000000) of
                    Inl exc \<Rightarrow> Inl exc
                  | Inr k1 \<Rightarrow>
                 (case py_int (py_or day (PInt 0)) of
                    Inl exc \<Rightarrow> Inl exc
                  | Inr d \<Rightarrow>
                 (case float_plus e k1 (d * 10000) of
                    Inl exc \<Rightarrow> Inl exc
                  | Inr k2 \<Rightarrow>
                 (case py_int (py_or hour (PInt 0)) of
                    Inl exc \<Rightarrow> Inl exc
                  | Inr h \<Rightarrow>
                 (case float_plus e k2 (h * 100) of
                    Inl exc \<Rightarrow> Inl exc
                  | Inr k3 \<Rightarrow> Inr (neg_key k3))))))
             | _ \<Rightarrow>
                 (case int_value year of
                    None \<Rightarrow> Inl TypeError
                  | Some y \<Rightarrow>
                 (case py_int (py_or day (PInt 0)) of
                    Inl exc \<Rightarrow> Inl exc
                  | Inr d \<Rightarrow>
                 (case py_int (py_or hour (PInt 0)) of
                    Inl exc \<Rightarrow> Inl exc
                  | Inr h \<Rightarrow>
                      Inr (Num (- of_int (y * 100000000 + m * 1000000 + d * 10000
                                          + h * 100))))))))))"

text \<open>
  \<open>all_features.sort(key=sort_key)\<close>: the keys are computed first, in order, and the
  first exception is raised; then the list is sorted by key, ascending and stable.
\<close>

fun keys_of :: "env \<Rightarrow> feature list \<Rightarrow> error + sortkey list" where
  "keys_of e [] = Inr []"
| "keys_of e (f # fs) =
     (case sort_key_py e f of
        Inl exc \<Rightarrow> Inl exc
      | Inr k \<Rightarrow> (case keys_of e fs of Inl exc \<Rightarrow> Inl exc | Inr ks \<Rightarrow> Inr (k # ks)))"

definition sort_features :: "env \<Rightarrow> feature list \<Rightarrow> error + feature list" where
  "sort_features e fs =
     (case keys_of e fs of
        Inl exc \<Rightarrow> Inl exc
      | Inr ks \<Rightarrow> Inr (map snd (sort_key fst (zip ks fs))))"

text \<open>
  \<^verbatim>\<open>
  available_fields = discover_fields(endpoint_url)
  if not available_fields:
      available_fields = ["OCC_YEAR", "OCC_DATE", "REPORT_DATE"]  # guess
  where_strategies = build_where_clauses(theft_type, available_fields)
  ...
  if not all_features:
      return []
  all_features.sort(key=sort_key)
  return all_features
  \<close>
\<close>

definition where_strategies :: "env \<Rightarrow> service \<Rightarrow> string \<Rightarrow> (string \<times> string) list" where
  "where_strategies e http theft_type =
     (let available_fields = discover_fields http
      in build_where_clauses e theft_type
           (if available_fields \<noteq> [] then available_fields
            else [''OCC_YEAR'', ''OCC_DATE'', ''REPORT_DATE'']))"

definition fetch_raw :: "env \<Rightarrow> service \<Rightarrow> string \<Rightarrow> feature list \<times> (string \<times> nat) list" where
  "fetch_raw e http theft_type = try_strategies http (where_strategies e http theft_type) []"

definition fetch_features :: "env \<Rightarrow> service \<Rightarrow> string \<Rightarrow> error + feature list" where
  "fetch_features e http theft_type =
     (let all_features = fst (fetch_raw e http theft_type)
      in if all_features = [] then Inr [] else sort_features e all_features)"

section \<open>A concrete run\<close>

text \<open>
  A clock reading for the examples: the run takes place on 4 November 2026, day 20761, so
  the cutoff, 180 days earlier, is 8 May 2026. The floating-point inputs are the exact
  operations, with the \<open>OverflowError\<close> of a number of seconds that does not fit the
  64 bits of \<open>time_t\<close>, the \<open>OSError\<close> of one whose year does not fit the 32 bits
  of \<open>gmtime\<close>, and the \<open>ValueError\<close> of a year beyond 9999; the examples use
  them only at numbers where the double result is the exact one. No example converts
  between floats and text.
\<close>

definition env0 :: env where
  "env0 = \<lparr>now_day = 20761,
           cutoff_ms = 1778198400000,
           float_of_str = (\<lambda>s. None), float_repr = (\<lambda>x. ''0.0''),
           date_of_double =
             (\<lambda>x. if 9223372036854775808000 \<le> x then Inl OverflowError
                  else if 67768036191676800000 \<le> x then Inl OSError
                  else (let ymd = civil_from_days (\<lfloor>x / 1000\<rfloor> div 86400) in
                        if 9999 < fst ymd then Inl ValueError else Inr (iso_date ymd))),
           float_times = (\<lambda>x n. Num (x * of_int n)),
           float_plus =
             (\<lambda>k n. case k of Num x \<Rightarrow> Inr (Num (x + of_int n)) | _ \<Rightarrow> Inr k)\<rparr>"

text \<open>A point in Toronto.\<close>

definition toronto :: "pydict option" where
  "toronto = Some [(''x'', PFloat (- 79.38)), (''y'', PFloat 43.65)]"

text \<open>A feature at that point, and attributes dated June 2026, inside the window.\<close>

definition in_toronto :: "pydict \<Rightarrow> feature" where
  "in_toronto attrs = \<lparr>attributes = attrs, geometry = toronto\<rparr>"

definition june_2026 :: pydict where
  "june_2026 = [(''OCC_YEAR'', PInt 2026), (''OCC_MONTH'', PStr ''June'')]"

text \<open>One feature in Toronto, one without any coordinates, one in Paris.\<close>

definition three_places :: "feature list" where
  "three_places =
     [in_toronto june_2026,
      \<lparr>attributes = june_2026, geometry = None\<rparr>,
      \<lparr>attributes = june_2026,
        geometry = Some [(''x'', PFloat 2.35), (''y'', PFloat 48.85)]\<rparr>]"


text \<open>A feature whose year is not a number, and one that has a weekday name for its day.\<close>

definition bad_year :: "feature list" where
  "bad_year = [in_toronto [(''OCC_YEAR'', PStr ''abc'')]]"

definition weekday_only :: "feature list" where
  "weekday_only = [in_toronto (june_2026 @ [(''OCC_DOW'', PStr ''Monday'')])]"

text \<open>Two features of the same event, and two with different identifiers.\<close>

definition same_event :: "feature list" where
  "same_event =
     [in_toronto ((''EVENT_UNIQUE_ID'', PStr ''GO-1'') # june_2026),
      in_toronto ((''EVENT_UNIQUE_ID'', PStr ''GO-1'') # june_2026)]"

definition two_events :: "feature list" where
  "two_events =
     [in_toronto ((''EVENT_UNIQUE_ID'', PStr ''GO-1'') # june_2026),
      in_toronto ((''OBJECTID'', PInt 7) # june_2026)]"

section \<open>Predicates of the date properties\<close>




section \<open>Predicates of the transformer's properties\<close>

text \<open>
  The resolved coordinates of a feature are bad when both are exactly zero or when they
  lie outside the bounding box.
\<close>

definition bad_coords :: "env \<Rightarrow> feature \<Rightarrow> bool" where
  "bad_coords e f =
     (case resolve_coords e f of
        Inl err \<Rightarrow> False
      | Inr (la, lo) \<Rightarrow> both_zero la lo \<or> \<not> in_box la lo)"

text \<open>The coordinates of an emitted record are finite, not both zero, and in the box.\<close>

definition coords_ok :: "clean_record \<Rightarrow> bool" where
  "coords_ok r =
     (case (rec_lat r, rec_lng r) of
        (Finite la, Finite lo) \<Rightarrow>
          \<not> (la = 0 \<and> lo = 0) \<and> 41 \<le> la \<and> la \<le> 57 \<and> - 95 \<le> lo \<and> lo \<le> - 73
      | _ \<Rightarrow> False)"

text \<open>
  The composite \<open>year * 100 + month\<close> that the window check compares, where the year
  converts to an integer (a false year counts as 0).
\<close>

definition composite_ym :: "env \<Rightarrow> feature \<Rightarrow> int option" where
  "composite_ym e f =
     (let year = first_of (attributes f) year_field (PInt (now_year e));
          month = parse_month (first_of (attributes f) month_field (PInt 1))
      in case (if truthy year then py_int year else Inr 0) of
           Inl err \<Rightarrow> None
         | Inr y \<Rightarrow> Some (y * 100 + month))"

definition stale :: "env \<Rightarrow> feature \<Rightarrow> bool" where
  "stale e f =
     (case composite_ym e f of
        None \<Rightarrow> False
      | Some ym \<Rightarrow> ym < cutoff_year e * 100 + cutoff_month e)"




text \<open>The record identifier resolved from the attributes, with a default.\<close>

definition resolved_id :: "feature \<Rightarrow> pyval \<Rightarrow> pyval" where
  "resolved_id f dflt = first_of (attributes f) id_fields dflt"

section \<open>Predicates of the fetcher's properties, and example services\<close>

text \<open>
  The features of the pages \<open>p 0, \<dots>, p n\<close>, and the condition under which paging
  stops after page \<open>i\<close>.
\<close>

definition pages_upto :: "(nat \<Rightarrow> response) \<Rightarrow> nat \<Rightarrow> feature list" where
  "pages_upto p n = concat (map (\<lambda>i. features (p i)) [0..<Suc n])"

definition stops_at :: "(nat \<Rightarrow> response) \<Rightarrow> nat \<Rightarrow> bool" where
  "stops_at p i =
     (length (features (p i)) = 0
      \<or> 100000 \<le> length (pages_upto p i)
      \<or> (\<not> exceededTransferLimit (p i) \<and> length (features (p i)) < PAGE_SIZE))"

text \<open>A service that has exactly \<open>PAGE_SIZE\<close> features: a full first page, an empty second one.\<close>

definition full_page :: response where
  "full_page = \<lparr>features = replicate PAGE_SIZE (in_toronto june_2026),
                 exceededTransferLimit = False, fields_meta = []\<rparr>"

definition empty_page :: response where
  "empty_page = \<lparr>features = [], exceededTransferLimit = False, fields_meta = []\<rparr>"

definition two_pages :: service where
  "two_pages rq =
     (if rq = page_params ''1=1'' 0 then Inr full_page
      else if rq = page_params ''1=1'' PAGE_SIZE then Inr empty_page
      else Inl URLError)"

text \<open>A strategy fails when its paging raises or completes with nothing accumulated.\<close>

definition strategy_fails :: "service \<Rightarrow> string \<Rightarrow> bool" where
  "strategy_fails http w =
     (case paginate http w 0 [] of
        (Raised exc, fs, offsets) \<Rightarrow> True
      | (Completed, fs, offsets) \<Rightarrow> fs = [])"

definition accumulated :: "service \<Rightarrow> string \<Rightarrow> feature list" where
  "accumulated http w = fst (snd (paginate http w 0 []))"

definition requested :: "service \<Rightarrow> string \<Rightarrow> (string \<times> nat) list" where
  "requested http w = map (Pair w) (snd (snd (paginate http w 0 [])))"















text \<open>
  Ten thefts of June 2026, one per day; a service that rejects every filter but answers the
  unconditional query with them; a service that is down; and a service that fails on the
  second page of the unconditional query.
\<close>

definition theft_on_day :: "int \<Rightarrow> feature" where
  "theft_on_day d = in_toronto (june_2026 @ [(''OCC_DAY'', PInt d)])"

definition ten_thefts :: "feature list" where
  "ten_thefts = map theft_on_day [1, 2, 3, 4, 5, 6, 7, 8, 9, 10]"

definition fallback_service :: service where
  "fallback_service rq =
     (if rq = discover_params
      then Inr \<lparr>features = [theft_on_day 1], exceededTransferLimit = True, fields_meta = []\<rparr>
      else if rq = page_params ''1=1'' 0
      then Inr \<lparr>features = ten_thefts, exceededTransferLimit = False, fields_meta = []\<rparr>
      else Inl RuntimeError)"

definition dead_service :: service where
  "dead_service rq = Inl URLError"

definition flaky_service :: service where
  "flaky_service rq =
     (if rq = page_params ''1=1'' 0
      then Inr \<lparr>features = [theft_on_day 1, theft_on_day 2, theft_on_day 3],
                exceededTransferLimit = True, fields_meta = []\<rparr>
      else Inl URLError)"

section \<open>Properties of the field resolver\<close>

lemma get_not_none_iff: "get attrs k \<noteq> PNone \<longleftrightarrow> present_non_null attrs k"
  by (simp add: get_def present_non_null_def split: option.splits)

lemma get_present: "present_non_null attrs k \<Longrightarrow> map_of attrs k = Some (get attrs k)"
  by (simp add: get_def present_non_null_def split: option.splits)

text \<open>
  Claim C8. For every attribute mapping, candidate list and default, the resolver returns
  the value of the first candidate key present with a non-null value, and the default when
  no candidate has one; the function is total, so it has no failure mode. The two examples
  of the specification hold: \<open>{"OCC_YEAR": 2024}\<close> resolves to 2024 through
  \<open>["OCC_YEAR"]\<close>, and a mapping that has only \<open>HOOD_158 = "Annex"\<close> resolves to
  \<open>"Annex"\<close> through the neighbourhood field list.
\<close>

theorem first_of_resolves:
  "first_of attrs names dflt = resolve_spec attrs names dflt
   \<and> first_of [(''OCC_YEAR'', PInt 2024)] [''OCC_YEAR''] PNone = PInt 2024
   \<and> first_of [(''HOOD_158'', PStr ''Annex'')] neighbourhood_fields (PStr ''Unknown'')
       = PStr ''Annex''"
proof (intro conjI)
  show "first_of attrs names dflt = resolve_spec attrs names dflt"
  proof (induction names)
    case Nil
    show ?case by (simp add: resolve_spec_def)
  next
    case (Cons k ks)
    show ?case
    proof (cases "get attrs k \<noteq> PNone")
      case True
      then have p: "present_non_null attrs k" by (simp add: get_not_none_iff)
      show ?thesis
        using True p get_present[OF p] by (simp add: resolve_spec_def)
    next
      case False
      then have "\<not> present_non_null attrs k" by (simp add: get_not_none_iff)
      then show ?thesis
        using False Cons.IH by (simp add: resolve_spec_def)
    qed
  qed
  show "first_of [(''OCC_YEAR'', PInt 2024)] [''OCC_YEAR''] PNone = PInt 2024"
    by (simp add: get_def)
  show "first_of [(''HOOD_158'', PStr ''Annex'')] neighbourhood_fields (PStr ''Unknown'')
          = PStr ''Annex''"
    by (simp add: get_def neighbourhood_fields_def)
qed

section \<open>Properties of the record transformer\<close>

lemmas field_defs = id_fields_def date_field_def year_field_def month_field_def day_field_def
  hour_field_def neighbourhood_fields_def premise_fields_def lat_fields_def lng_fields_def
  status_fields_def

lemmas int_str_defs = int_of_str_def strip_def is_space_def is_int_space_def
  parse_digits_def digit_val_def str_int_def zero_pad_def MAX_STR_DIGITS_def too_long_def
  py_str_checked_def int_field_def

lemma civil_20761: "civil_from_days 20761 = (2026, 11, 4)"
  by code_simp

lemma civil_20581: "civil_from_days 20581 = (2026, 5, 8)"
  by code_simp

lemma clock0: "now_year env0 = 2026" "cutoff_year env0 = 2026" "cutoff_month env0 = 5"
  by (simp_all add: now_year_def cutoff_year_def cutoff_month_def cutoff_day_def
      TIME_WINDOW_MONTHS_def env0_def civil_20761 civil_20581)

lemmas transform_defs = process_features_def process_one_def resolve_coords_def raw_coords_def
  both_zero_def outside_window_def build_record_def parse_date_string_def is_epoch_ms_def
  date_after_epoch_def date_from_components_def default_date_def get_def clock0 toronto_def
  MONTH_NAME_TO_NUM_def Let_def

lemma round_half_even_bounds:
  "\<lfloor>x\<rfloor> \<le> round_half_even x" "round_half_even x \<le> \<lceil>x\<rceil>"
proof -
  show "\<lfloor>x\<rfloor> \<le> round_half_even x"
    by (simp add: round_half_even_def Let_def)
  have "x \<noteq> of_int \<lfloor>x\<rfloor> \<Longrightarrow> \<lfloor>x\<rfloor> + 1 \<le> \<lceil>x\<rceil>"
    by (metis ceiling_altdef floor_of_int of_int_floor_cancel order_refl)
  moreover have "even \<lfloor>x\<rfloor> \<or> x - of_int \<lfloor>x\<rfloor> \<noteq> 0 \<or> x - of_int \<lfloor>x\<rfloor> < 1/2" by auto
  ultimately show "round_half_even x \<le> \<lceil>x\<rceil>"
    by (auto simp: round_half_even_def Let_def intro: floor_le_ceiling)
qed

lemma round6_lower:
  assumes "of_int k \<le> x"
  shows "of_int k \<le> (of_int (round_half_even (x * 1000000)) / 1000000 :: real)"
proof -
  have "of_int (k * 1000000) \<le> x * 1000000" using assms by simp
  then have "k * 1000000 \<le> \<lfloor>x * 1000000\<rfloor>" by (simp only: le_floor_iff)
  also have "\<dots> \<le> round_half_even (x * 1000000)" by (rule round_half_even_bounds)
  finally have "(of_int (k * 1000000) :: real) \<le> of_int (round_half_even (x * 1000000))"
    by (simp only: of_int_le_iff)
  then show ?thesis by simp
qed

lemma round6_upper:
  assumes "x \<le> of_int k"
  shows "(of_int (round_half_even (x * 1000000)) / 1000000 :: real) \<le> of_int k"
proof -
  have "x * 1000000 \<le> of_int (k * 1000000)" using assms by simp
  then have "\<lceil>x * 1000000\<rceil> \<le> k * 1000000" by (simp only: ceiling_le_iff)
  with round_half_even_bounds(2)[of "x * 1000000"]
  have "round_half_even (x * 1000000) \<le> k * 1000000" by linarith
  then have "(of_int (round_half_even (x * 1000000)) :: real) \<le> of_int (k * 1000000)"
    by (simp only: of_int_le_iff)
  then show ?thesis by simp
qed

lemma round6_in_box:
  assumes "in_box la lo"
  shows "\<exists>x y. round6 la = Finite x \<and> round6 lo = Finite y
            \<and> 41 \<le> x \<and> x \<le> 57 \<and> - 95 \<le> y \<and> y \<le> - 73"
proof -
  from assms obtain a b where ab: "la = Finite a" "lo = Finite b"
    by (cases la; cases lo) auto
  with assms have b: "41 \<le> a" "a \<le> 57" "- 95 \<le> b" "b \<le> - 73" by auto
  have 1: "41 \<le> (of_int (round_half_even (a * 1000000)) / 1000000 :: real)"
    using round6_lower[of 41 a] b by simp
  have 2: "(of_int (round_half_even (a * 1000000)) / 1000000 :: real) \<le> 57"
    using round6_upper[of a 57] b by simp
  have 3: "- 95 \<le> (of_int (round_half_even (b * 1000000)) / 1000000 :: real)"
    using round6_lower[of "- 95" b] b by simp
  have 4: "(of_int (round_half_even (b * 1000000)) / 1000000 :: real) \<le> - 73"
    using round6_upper[of b "- 73"] b by simp
  show ?thesis
    unfolding ab round6.simps using 1 2 3 4 by blast
qed

lemma process_one_bad_iff:
  "process_one e tt n f = Inr BadCoords \<longleftrightarrow> bad_coords e f"
  by (auto simp: process_one_def bad_coords_def Let_def split: sum.splits bool.splits prod.splits)



lemma outside_window_stale:
  "outside_window e (first_of (attributes f) year_field (PInt (now_year e)))
       (parse_month (first_of (attributes f) month_field (PInt 1))) = Inr b
   \<Longrightarrow> b = stale e f"
  by (auto simp: outside_window_def stale_def composite_ym_def Let_def
      split: sum.splits if_splits)

lemma process_one_window_iff:
  assumes "process_one e tt n f = Inr x"
  shows "x = OutOfWindow \<longleftrightarrow> \<not> bad_coords e f \<and> stale e f"
  using assms
  by (auto simp: process_one_def bad_coords_def Let_def
      split: sum.splits bool.splits prod.splits if_splits
      dest: outside_window_stale)

lemma process_one_emit_coords:
  assumes "process_one e tt n f = Inr (Emit r)"
  shows "coords_ok r"
proof -
  from assms obtain la lo where in_b: "in_box la lo"
    and rr: "rec_lat r = round6 la" "rec_lng r = round6 lo"
    by (auto simp: process_one_def build_record_def Let_def
        split: sum.splits bool.splits prod.splits if_splits)
  from round6_in_box[OF in_b] show ?thesis
    unfolding coords_ok_def rr by auto
qed


lemma py_str_checked_text: "py_str_checked e v = Inr s \<Longrightarrow> s = py_str e v"
  by (auto simp: py_str_checked_def split: pyval.splits if_splits)

lemma process_one_emit_id:
  assumes "process_one e tt n f = Inr (Emit r)"
  shows "rec_id r = tt @ ''-'' @ py_str e (resolved_id f (PStr (str_int (int n))))"
  using assms
  by (auto simp: process_one_def build_record_def resolved_id_def Let_def
      split: sum.splits bool.splits prod.splits if_splits dest: py_str_checked_text)

lemma process_loop_emitted:
  "process_loop e tt fs st = Inr st' \<Longrightarrow>
   \<exists>new. clean_records st' = clean_records st @ new
     \<and> (\<forall>r \<in> set new. \<exists>f \<in> set fs. \<exists>n. process_one e tt n f = Inr (Emit r))"
proof (induction fs arbitrary: st)
  case Nil
  then show ?case by simp
next
  case (Cons f fs)
  from Cons.prems obtain x where x: "process_one e tt (length (clean_records st)) f = Inr x"
    by (auto split: sum.splits)
  show ?case
  proof (cases x)
    case BadCoords
    with x Cons.prems
    have "process_loop e tt fs (st\<lparr>discarded_coords := discarded_coords st + 1\<rparr>) = Inr st'"
      by simp
    from Cons.IH[OF this] show ?thesis by auto
  next
    case OutOfWindow
    with x Cons.prems
    have "process_loop e tt fs (st\<lparr>discarded_date := discarded_date st + 1\<rparr>) = Inr st'"
      by simp
    from Cons.IH[OF this] show ?thesis by auto
  next
    case (Emit r)
    with x Cons.prems
    have "process_loop e tt fs (st\<lparr>clean_records := clean_records st @ [r]\<rparr>) = Inr st'"
      by simp
    from Cons.IH[OF this] obtain new where
      n: "clean_records st' = (clean_records st @ [r]) @ new"
         "\<forall>r \<in> set new. \<exists>f \<in> set fs. \<exists>n. process_one e tt n f = Inr (Emit r)"
      by auto
    have "clean_records st' = clean_records st @ (r # new)" using n(1) by simp
    moreover have "\<forall>r' \<in> set (r # new). \<exists>f' \<in> set (f # fs). \<exists>n.
        process_one e tt n f' = Inr (Emit r')"
      using n(2) x Emit by auto
    ultimately show ?thesis by blast
  qed
qed

lemma process_loop_counters:
  "process_loop e tt fs st = Inr st' \<Longrightarrow>
   discarded_coords st' = discarded_coords st + length (filter (bad_coords e) fs)
   \<and> discarded_date st'
       = discarded_date st + length (filter (\<lambda>f. \<not> bad_coords e f \<and> stale e f) fs)
   \<and> discarded_other st' = discarded_other st"
proof (induction fs arbitrary: st)
  case Nil
  then show ?case by simp
next
  case (Cons f fs)
  from Cons.prems obtain x where x: "process_one e tt (length (clean_records st)) f = Inr x"
    by (auto split: sum.splits)
  note w = process_one_window_iff[OF x] and b = process_one_bad_iff[of e tt "length (clean_records st)" f]
  show ?case
  proof (cases x)
    case BadCoords
    with x Cons.prems
    have "process_loop e tt fs (st\<lparr>discarded_coords := discarded_coords st + 1\<rparr>) = Inr st'"
      by simp
    from Cons.IH[OF this] show ?thesis using b x BadCoords by simp
  next
    case OutOfWindow
    with x Cons.prems
    have "process_loop e tt fs (st\<lparr>discarded_date := discarded_date st + 1\<rparr>) = Inr st'"
      by simp
    from Cons.IH[OF this] show ?thesis using w OutOfWindow by simp
  next
    case (Emit r)
    with x Cons.prems
    have "process_loop e tt fs (st\<lparr>clean_records := clean_records st @ [r]\<rparr>) = Inr st'"
      by simp
    from Cons.IH[OF this] show ?thesis using w b x Emit by auto
  qed
qed

lemma process_loop_skips_bad:
  "process_loop e tt fs st1 = Inr st1' \<Longrightarrow> clean_records st2 = clean_records st1 \<Longrightarrow>
   \<exists>st2'. process_loop e tt (filter (\<lambda>f. \<not> bad_coords e f) fs) st2 = Inr st2'
          \<and> clean_records st2' = clean_records st1'"
proof (induction fs arbitrary: st1 st2)
  case Nil
  then show ?case by simp
next
  case (Cons f fs)
  from Cons.prems obtain x where x: "process_one e tt (length (clean_records st1)) f = Inr x"
    by (auto split: sum.splits)
  note b = process_one_bad_iff[of e tt "length (clean_records st1)" f]
  show ?case
  proof (cases x)
    case BadCoords
    with x Cons.prems
    have "process_loop e tt fs (st1\<lparr>discarded_coords := discarded_coords st1 + 1\<rparr>) = Inr st1'"
      by simp
    from Cons.IH[OF this, of st2] Cons.prems(2) show ?thesis using b x BadCoords by simp
  next
    case OutOfWindow
    with x Cons.prems
    have "process_loop e tt fs (st1\<lparr>discarded_date := discarded_date st1 + 1\<rparr>) = Inr st1'"
      by simp
    from Cons.IH[OF this, of "st2\<lparr>discarded_date := discarded_date st2 + 1\<rparr>"] Cons.prems(2)
    show ?thesis using b x OutOfWindow by simp
  next
    case (Emit r)
    with x Cons.prems
    have "process_loop e tt fs (st1\<lparr>clean_records := clean_records st1 @ [r]\<rparr>) = Inr st1'"
      by simp
    from Cons.IH[OF this, of "st2\<lparr>clean_records := clean_records st2 @ [r]\<rparr>"] Cons.prems(2)
    show ?thesis using b x Emit by simp
  qed
qed

text \<open>
  Claim C1. Whenever the transformer returns, every record it emitted has finite
  coordinates that are not both zero and lie in the box \<open>41 \<le> lat \<le> 57\<close>,
  \<open>-95 \<le> lng \<le> -73\<close>; the bad-coordinate counter is the number of features whose
  resolved coordinates are \<open>(0, 0)\<close> or outside the box; and those features contribute
  nothing: without them the run emits the same records.
\<close>

theorem process_features_coordinates:
  assumes "process_features e raw_features theft_type = Inr st"
  shows "(\<forall>r \<in> set (clean_records st). coords_ok r)
    \<and> discarded_coords st = length (filter (bad_coords e) raw_features)
    \<and> (\<exists>st'. process_features e (filter (\<lambda>f. \<not> bad_coords e f) raw_features) theft_type
               = Inr st'
             \<and> clean_records st' = clean_records st)"
proof (intro conjI)
  from process_loop_emitted[OF assms[unfolded process_features_def]]
  show "\<forall>r \<in> set (clean_records st). coords_ok r"
    by (auto dest: process_one_emit_coords)
  from process_loop_counters[OF assms[unfolded process_features_def]]
  show "discarded_coords st = length (filter (bad_coords e) raw_features)"
    by simp
  from process_loop_skips_bad[OF assms[unfolded process_features_def] refl]
  show "\<exists>st'. process_features e (filter (\<lambda>f. \<not> bad_coords e f) raw_features) theft_type
               = Inr st'
             \<and> clean_records st' = clean_records st"
    by (simp add: process_features_def)
qed

lemma three_places_run:
  "\<exists>st. process_features env0 three_places ''auto'' = Inr st \<and> length (clean_records st) = 1"
  by (simp add: three_places_def in_toronto_def june_2026_def transform_defs field_defs
      int_str_defs)

lemma three_places_bad: "filter (bad_coords env0) three_places = tl three_places"
  by (simp add: three_places_def in_toronto_def june_2026_def bad_coords_def resolve_coords_def
      raw_coords_def both_zero_def get_def toronto_def field_defs Let_def)

theorem process_features_coordinates_witness:
  "\<not> isl (process_features env0 three_places ''auto'')
   \<and> list_all coords_ok (clean_records (projr (process_features env0 three_places ''auto'')))
   \<and> length (clean_records (projr (process_features env0 three_places ''auto''))) = 1
   \<and> discarded_coords (projr (process_features env0 three_places ''auto'')) = 2"
proof -
  from three_places_run obtain st where
    st: "process_features env0 three_places ''auto'' = Inr st" "length (clean_records st) = 1"
    by blast
  from process_features_coordinates[OF st(1)] three_places_bad
  have "(\<forall>r \<in> set (clean_records st). coords_ok r)"
    "discarded_coords st = length (tl three_places)"
    by simp_all
  then show ?thesis
    using st by (simp add: list_all_iff three_places_def)
qed

lemmas example_defs = in_toronto_def june_2026_def transform_defs field_defs int_str_defs











text \<open>
  Claim C6. A single malformed feature makes the transformer raise: a non-numeric year
  passes the window check, whose \<open>try\<close> keeps it, and then fails in the unguarded
  \<open>int(year)\<close> of the record; a weekday name found under \<open>OCC_DOW\<close> fails in the
  unguarded \<open>int(day)\<close>. Both runs end in \<open>ValueError\<close>.
\<close>

theorem malformed_year_or_day_raises:
  "process_features env0 bad_year ''auto'' = Inl ValueError
   \<and> process_features env0 weekday_only ''auto'' = Inl ValueError"
  by (simp add: bad_year_def weekday_only_def example_defs)

text \<open>
  Against claim C7 as stated: two features that carry the same \<open>EVENT_UNIQUE_ID\<close>
  yield two records with the same id.
\<close>

theorem same_event_same_id:
  "\<not> isl (process_features env0 same_event ''auto'')
   \<and> map rec_id (clean_records (projr (process_features env0 same_event ''auto'')))
       = [''auto-GO-1'', ''auto-GO-1'']
   \<and> \<not> distinct (map rec_id (clean_records (projr (process_features env0 same_event ''auto''))))"
  by (simp add: same_event_def example_defs)

lemma first_of_default:
  "first_of attrs names PNone \<noteq> PNone \<Longrightarrow>
   first_of attrs names dflt = first_of attrs names PNone"
  by (induction names) (auto simp: Let_def)

lemma process_loop_ids_indexed:
  "process_loop e tt fs st = Inr st' \<Longrightarrow>
   \<exists>new. clean_records st' = clean_records st @ new
     \<and> (\<forall>i < length new. \<exists>f \<in> set fs.
           rec_id (new ! i)
             = tt @ ''-'' @ py_str e (resolved_id f
                 (PStr (str_int (int (length (clean_records st) + i))))))"
proof (induction fs arbitrary: st)
  case Nil
  then show ?case by simp
next
  case (Cons f fs)
  from Cons.prems obtain x where x: "process_one e tt (length (clean_records st)) f = Inr x"
    by (auto split: sum.splits)
  show ?case
  proof (cases x)
    case BadCoords
    with x Cons.prems
    have "process_loop e tt fs (st\<lparr>discarded_coords := discarded_coords st + 1\<rparr>) = Inr st'"
      by simp
    from Cons.IH[OF this] show ?thesis by auto
  next
    case OutOfWindow
    with x Cons.prems
    have "process_loop e tt fs (st\<lparr>discarded_date := discarded_date st + 1\<rparr>) = Inr st'"
      by simp
    from Cons.IH[OF this] show ?thesis by auto
  next
    case (Emit r)
    with x Cons.prems
    have "process_loop e tt fs (st\<lparr>clean_records := clean_records st @ [r]\<rparr>) = Inr st'"
      by simp
    from Cons.IH[OF this] obtain new where
      n: "clean_records st' = (clean_records st @ [r]) @ new"
         "\<forall>i < length new. \<exists>f \<in> set fs.
            rec_id (new ! i)
              = tt @ ''-'' @ py_str e (resolved_id f
                  (PStr (str_int (int (Suc (length (clean_records st)) + i)))))"
      by auto
    have r: "rec_id r = tt @ ''-'' @ py_str e (resolved_id f
               (PStr (str_int (int (length (clean_records st))))))"
      using process_one_emit_id x Emit by simp
    have "clean_records st' = clean_records st @ (r # new)" using n(1) by simp
    moreover have "\<forall>i < length (r # new). \<exists>f' \<in> set (f # fs).
        rec_id ((r # new) ! i)
          = tt @ ''-'' @ py_str e (resolved_id f'
              (PStr (str_int (int (length (clean_records st) + i)))))"
    proof (intro allI impI)
      fix i assume i: "i < length (r # new)"
      show "\<exists>f' \<in> set (f # fs).
        rec_id ((r # new) ! i)
          = tt @ ''-'' @ py_str e (resolved_id f'
              (PStr (str_int (int (length (clean_records st) + i)))))"
      proof (cases i)
        case 0
        then show ?thesis using r by simp
      next
        case (Suc j)
        with i have "j < length new" by simp
        with n(2) obtain f' where "f' \<in> set fs"
          "rec_id (new ! j) = tt @ ''-'' @ py_str e (resolved_id f'
             (PStr (str_int (int (Suc (length (clean_records st)) + j)))))"
          by blast
        then show ?thesis using Suc by auto
      qed
    qed
    ultimately show ?thesis by blast
  qed
qed

lemma process_loop_ids_distinct:
  "process_loop e tt fs st = Inr st' \<Longrightarrow>
   \<forall>f \<in> set fs. resolved_id f PNone \<noteq> PNone \<Longrightarrow>
   distinct (map (\<lambda>f. py_str e (resolved_id f PNone)) fs) \<Longrightarrow>
   \<exists>new. map rec_id (clean_records st') = map rec_id (clean_records st) @ new
     \<and> set new \<subseteq> (\<lambda>f. tt @ ''-'' @ py_str e (resolved_id f PNone)) ` set fs
     \<and> distinct new"
proof (induction fs arbitrary: st)
  case Nil
  then show ?case by simp
next
  case (Cons f fs)
  from Cons.prems(1) obtain x where x: "process_one e tt (length (clean_records st)) f = Inr x"
    by (auto split: sum.splits)
  have rest: "\<forall>f \<in> set fs. resolved_id f PNone \<noteq> PNone"
    "distinct (map (\<lambda>f. py_str e (resolved_id f PNone)) fs)"
    using Cons.prems by simp_all
  show ?case
  proof (cases x)
    case BadCoords
    with x Cons.prems
    have "process_loop e tt fs (st\<lparr>discarded_coords := discarded_coords st + 1\<rparr>) = Inr st'"
      by simp
    from Cons.IH[OF this rest] show ?thesis by auto
  next
    case OutOfWindow
    with x Cons.prems
    have "process_loop e tt fs (st\<lparr>discarded_date := discarded_date st + 1\<rparr>) = Inr st'"
      by simp
    from Cons.IH[OF this rest] show ?thesis by auto
  next
    case (Emit r)
    with x Cons.prems
    have "process_loop e tt fs (st\<lparr>clean_records := clean_records st @ [r]\<rparr>) = Inr st'"
      by simp
    from Cons.IH[OF this rest] obtain new where
      n: "map rec_id (clean_records st') = (map rec_id (clean_records st) @ [rec_id r]) @ new"
         "set new \<subseteq> (\<lambda>f. tt @ ''-'' @ py_str e (resolved_id f PNone)) ` set fs"
         "distinct new"
      by auto
    have "resolved_id f PNone \<noteq> PNone" using Cons.prems(2) by simp
    then have "resolved_id f (PStr (str_int (int (length (clean_records st)))))
                 = resolved_id f PNone"
      unfolding resolved_id_def by (rule first_of_default)
    then have r: "rec_id r = tt @ ''-'' @ py_str e (resolved_id f PNone)"
      using process_one_emit_id x Emit by simp
    have "py_str e (resolved_id f PNone)
            \<notin> (\<lambda>f. py_str e (resolved_id f PNone)) ` set fs"
      using Cons.prems(3) by simp
    then have "rec_id r \<notin> (\<lambda>f. tt @ ''-'' @ py_str e (resolved_id f PNone)) ` set fs"
      unfolding r by auto
    then have "rec_id r \<notin> set new" using n(2) by blast
    then have "distinct (rec_id r # new)" using n(3) by simp
    moreover have "set (rec_id r # new)
        \<subseteq> (\<lambda>f. tt @ ''-'' @ py_str e (resolved_id f PNone)) ` set (f # fs)"
      using n(2) r by auto
    moreover have "map rec_id (clean_records st')
        = map rec_id (clean_records st) @ (rec_id r # new)"
      using n(1) by simp
    ultimately show ?thesis by blast
  qed
qed

text \<open>
  Claim C7, as amended. The id of the \<open>i\<close>-th emitted record is the category tag, a
  hyphen and the text of the identifier resolved from some input feature, the default being
  the index \<open>i\<close>; the ids are pairwise distinct when every input feature has an
  identifier and the texts of the identifiers are pairwise distinct. The transformer does
  not de-duplicate.
\<close>

theorem process_features_ids:
  assumes "process_features e raw_features theft_type = Inr st"
  shows "(\<forall>i < length (clean_records st). \<exists>f \<in> set raw_features.
            rec_id (clean_records st ! i)
              = theft_type @ ''-'' @ py_str e (resolved_id f (PStr (str_int (int i)))))
    \<and> ((\<forall>f \<in> set raw_features. resolved_id f PNone \<noteq> PNone)
        \<and> distinct (map (\<lambda>f. py_str e (resolved_id f PNone)) raw_features)
        \<longrightarrow> distinct (map rec_id (clean_records st)))"
proof (intro conjI impI)
  from process_loop_ids_indexed[OF assms[unfolded process_features_def]]
  show "\<forall>i < length (clean_records st). \<exists>f \<in> set raw_features.
            rec_id (clean_records st ! i)
              = theft_type @ ''-'' @ py_str e (resolved_id f (PStr (str_int (int i))))"
    by simp
next
  assume a: "(\<forall>f \<in> set raw_features. resolved_id f PNone \<noteq> PNone)
        \<and> distinct (map (\<lambda>f. py_str e (resolved_id f PNone)) raw_features)"
  from process_loop_ids_distinct[OF assms[unfolded process_features_def]] a
  show "distinct (map rec_id (clean_records st))"
    by auto
qed

lemma two_events_run:
  "\<exists>st. process_features env0 two_events ''auto'' = Inr st
        \<and> map rec_id (clean_records st) = [''auto-GO-1'', ''auto-7'']"
  by (simp add: two_events_def example_defs)

theorem process_features_ids_witness:
  "\<not> isl (process_features env0 two_events ''auto'')
   \<and> map rec_id (clean_records (projr (process_features env0 two_events ''auto'')))
       = [''auto-GO-1'', ''auto-7'']
   \<and> distinct (map rec_id (clean_records (projr (process_features env0 two_events ''auto''))))"
proof -
  from two_events_run obtain st where
    st: "process_features env0 two_events ''auto'' = Inr st"
      "map rec_id (clean_records st) = [''auto-GO-1'', ''auto-7'']"
    by (elim exE conjE)
  have h: "(\<forall>f \<in> set two_events. resolved_id f PNone \<noteq> PNone)
        \<and> distinct (map (\<lambda>f. py_str env0 (resolved_id f PNone)) two_events)"
    by (simp add: two_events_def in_toronto_def june_2026_def resolved_id_def get_def
        id_fields_def str_int_def)
  from process_features_ids[OF st(1)] h
  have "distinct (map rec_id (clean_records st))" by blast
  then show ?thesis using st by simp
qed



















section \<open>Properties of the fetcher\<close>

lemma pages_upto_Suc: "pages_upto p (Suc n) = pages_upto p n @ features (p (Suc n))"
  by (simp add: pages_upto_def)

lemma paginate_run:
  assumes "\<forall>i. k \<le> i \<and> i \<le> n \<longrightarrow> http (page_params w (i * PAGE_SIZE)) = Inr (p i)"
    and "\<forall>i. k \<le> i \<and> i < n \<longrightarrow> \<not> stops_at p i"
    and "stops_at p n" and "k \<le> n"
  shows "paginate http w (k * PAGE_SIZE) (concat (map (\<lambda>i. features (p i)) [0..<k]))
           = (Completed, pages_upto p n, map (\<lambda>i. i * PAGE_SIZE) [k..<Suc n])"
  using assms
proof (induction "n - k" arbitrary: k)
  case 0
  then have kn: "k = n" by simp
  have h: "http (page_params w (n * PAGE_SIZE)) = Inr (p n)" using "0.prems"(1) kn by simp
  have acc: "concat (map (\<lambda>i. features (p i)) [0..<n]) @ features (p n) = pages_upto p n"
    by (simp add: pages_upto_def)
  have len: "length (concat (map (\<lambda>i. features (p i)) [0..<n]) @ features (p n))
               = length (pages_upto p n)"
    by (simp only: acc)
  have e: "features (p n) = [] \<Longrightarrow> concat (map (\<lambda>i. features (p i)) [0..<n]) = pages_upto p n"
    using acc by simp
  show ?case
    unfolding kn
    apply (subst paginate.simps)
    using "0.prems"(3) e
    by (auto simp: h stops_at_def len acc simp del: length_append)
next
  case (Suc d)
  then have kn: "k < n" by simp
  have h: "http (page_params w (k * PAGE_SIZE)) = Inr (p k)" using Suc.prems(1) kn by simp
  have ns: "\<not> stops_at p k" using Suc.prems(2) kn by simp
  have acc: "concat (map (\<lambda>i. features (p i)) [0..<k]) @ features (p k)
               = concat (map (\<lambda>i. features (p i)) [0..<Suc k])"
    by simp
  have len: "length (concat (map (\<lambda>i. features (p i)) [0..<k]) @ features (p k))
               = length (pages_upto p k)"
    by (simp add: pages_upto_def)
  have IH: "paginate http w (Suc k * PAGE_SIZE) (concat (map (\<lambda>i. features (p i)) [0..<Suc k]))
              = (Completed, pages_upto p n, map (\<lambda>i. i * PAGE_SIZE) [Suc k..<Suc n])"
    using Suc.hyps(2) Suc.prems kn by (intro Suc.hyps(1)) auto
  have off: "k * PAGE_SIZE + PAGE_SIZE = Suc k * PAGE_SIZE" by simp
  have up: "[k..<Suc n] = k # [Suc k..<Suc n]" using kn by (simp add: upt_conv_Cons)
  have step: "paginate http w (k * PAGE_SIZE) (concat (map (\<lambda>i. features (p i)) [0..<k]))
      = (case paginate http w (k * PAGE_SIZE + PAGE_SIZE)
                (concat (map (\<lambda>i. features (p i)) [0..<k]) @ features (p k)) of
           (s, fs, offsets) \<Rightarrow> (s, fs, k * PAGE_SIZE # offsets))"
    apply (subst paginate.simps)
    using ns
    by (auto simp: h stops_at_def len simp del: length_append)
  show ?case
    unfolding step acc off IH up by simp
qed

text \<open>
  Claim C3. Let the service answer the page requests of one strategy at the offsets
  \<open>0, PAGE_SIZE, 2 * PAGE_SIZE, \<dots>\<close> with the pages \<open>p 0, p 1, \<dots>\<close>. Paging stops
  at the first page \<open>n\<close> that is empty, or with which the accumulated count reaches
  100000, or that has neither the \<open>exceededTransferLimit\<close> flag nor \<open>PAGE_SIZE\<close>
  features: if no earlier page meets that condition, the fetcher requests exactly the pages
  \<open>0, \<dots>, n\<close> and has accumulated their features. \<open>paginate\<close> is a total
  function, so paging always ends.
\<close>

theorem paginate_stops:
  assumes "\<forall>i \<le> n. http (page_params w (i * PAGE_SIZE)) = Inr (p i)"
    and "\<forall>i < n. \<not> stops_at p i"
    and "stops_at p n"
  shows "paginate http w 0 []
           = (Completed, pages_upto p n, map (\<lambda>i. i * PAGE_SIZE) [0..<Suc n])"
  using paginate_run[of 0 n http w p] assms by simp

lemma try_strategies_fallback:
  assumes "\<forall>s \<in> set pre. strategy_fails http (fst s)"
    and "paginate http w 0 [] = (Completed, fs, offsets)" and "fs \<noteq> []"
  shows "try_strategies http (pre @ (w, d) # post) acc
           = (fs, concat (map (\<lambda>s. requested http (fst s)) pre) @ map (Pair w) offsets)"
  using assms(1)
proof (induction pre arbitrary: acc)
  case Nil
  show ?case using assms(2,3) by simp
next
  case (Cons s pre)
  obtain w' d' where s: "s = (w', d')" by (cases s)
  obtain st fs' offs' where p: "paginate http w' 0 [] = (st, fs', offs')"
    by (cases "paginate http w' 0 []")
  have f: "strategy_fails http w'" using Cons.prems s by simp
  have IH: "try_strategies http (pre @ (w, d) # post) fs'
              = (fs, concat (map (\<lambda>s. requested http (fst s)) pre) @ map (Pair w) offsets)"
    using Cons.prems by (intro Cons.IH) simp
  show ?case
    using f p IH by (cases st) (simp_all add: s strategy_fails_def requested_def)
qed

lemma try_strategies_exhausted:
  "\<forall>s \<in> set ss. accumulated http (fst s) = [] \<Longrightarrow> acc = [] \<Longrightarrow>
   fst (try_strategies http ss acc) = []"
proof (induction ss arbitrary: acc)
  case Nil
  then show ?case by simp
next
  case (Cons s ss)
  obtain w' d' where s: "s = (w', d')" by (cases s)
  obtain st fs' offs' where p: "paginate http w' 0 [] = (st, fs', offs')"
    by (cases "paginate http w' 0 []")
  have e: "fs' = []" using Cons.prems(1) s p by (simp add: accumulated_def)
  have IH: "fst (try_strategies http ss []) = []"
    using Cons.prems by (intro Cons.IH) simp_all
  show ?case
    using p e IH by (cases st) (auto simp: s split: prod.splits)
qed

lemma try_strategies_last_raises:
  assumes "\<forall>s \<in> set pre. strategy_fails http (fst s)"
    and "paginate http w 0 [] = (Raised exc, fs, offsets)"
  shows "fst (try_strategies http (pre @ [(w, d)]) acc) = fs"
  using assms(1)
proof (induction pre arbitrary: acc)
  case Nil
  show ?case using assms(2) by simp
next
  case (Cons s pre)
  obtain w' d' where s: "s = (w', d')" by (cases s)
  obtain st fs' offs' where p: "paginate http w' 0 [] = (st, fs', offs')"
    by (cases "paginate http w' 0 []")
  have f: "strategy_fails http w'" using Cons.prems s by simp
  have IH: "fst (try_strategies http (pre @ [(w, d)]) fs') = fs"
    using Cons.prems by (intro Cons.IH) simp
  show ?case
    using f p IH by (cases st) (auto simp: s strategy_fails_def split: prod.splits)
qed

text \<open>
  Claim C4. When every strategy before \<open>w\<close> raises or accumulates nothing, and
  \<open>w\<close> completes with a nonempty accumulation, the fetcher takes that accumulation,
  makes no request for a later strategy, and returns the sorted list: an error of an
  earlier strategy is not propagated. When every strategy accumulates nothing, whether it
  raises or not, the fetcher returns the empty list.
\<close>

theorem strategy_fallback:
  "(where_strategies e http theft_type = pre @ (w, d) # post
      \<and> (\<forall>s \<in> set pre. strategy_fails http (fst s))
      \<and> paginate http w 0 [] = (Completed, fs, offsets) \<and> fs \<noteq> []
    \<longrightarrow> fetch_raw e http theft_type
          = (fs, concat (map (\<lambda>s. requested http (fst s)) pre) @ map (Pair w) offsets)
        \<and> fetch_features e http theft_type = sort_features e fs)
   \<and> ((\<forall>s \<in> set (where_strategies e http theft_type). accumulated http (fst s) = [])
      \<longrightarrow> fetch_features e http theft_type = Inr [])"
proof (intro conjI impI)
  assume a: "where_strategies e http theft_type = pre @ (w, d) # post
      \<and> (\<forall>s \<in> set pre. strategy_fails http (fst s))
      \<and> paginate http w 0 [] = (Completed, fs, offsets) \<and> fs \<noteq> []"
  then have r: "fetch_raw e http theft_type
          = (fs, concat (map (\<lambda>s. requested http (fst s)) pre) @ map (Pair w) offsets)"
    unfolding fetch_raw_def using try_strategies_fallback[of pre http w fs offsets d post "[]"]
    by simp
  then show "fetch_raw e http theft_type
          = (fs, concat (map (\<lambda>s. requested http (fst s)) pre) @ map (Pair w) offsets)" .
  show "fetch_features e http theft_type = sort_features e fs"
    using a by (simp add: fetch_features_def r)
next
  assume "\<forall>s \<in> set (where_strategies e http theft_type). accumulated http (fst s) = []"
  then have "fst (fetch_raw e http theft_type) = []"
    unfolding fetch_raw_def by (intro try_strategies_exhausted) simp_all
  then show "fetch_features e http theft_type = Inr []"
    by (simp add: fetch_features_def)
qed

text \<open>
  Claim C10. When the last strategy raises after it has accumulated features, and no
  earlier strategy succeeded, \<open>fetch_features\<close> sorts and returns that partial
  accumulation: the accumulator is reset only at the start of a strategy.
\<close>

theorem partial_accumulation_returned:
  assumes "where_strategies e http theft_type = pre @ [(w, d)]"
    and "\<forall>s \<in> set pre. strategy_fails http (fst s)"
    and "paginate http w 0 [] = (Raised exc, fs, offsets)"
    and "fs \<noteq> []"
  shows "fetch_features e http theft_type = sort_features e fs"
proof -
  have "fst (fetch_raw e http theft_type) = fs"
    unfolding fetch_raw_def assms(1) using assms(2,3) by (rule try_strategies_last_raises)
  then show ?thesis using assms(4) by (simp add: fetch_features_def)
qed

lemma Num_le: "Num a \<le> Num b \<longleftrightarrow> a \<le> b"
  by (simp add: less_eq_sortkey_def)













lemmas request_defs = page_params_def discover_params_def PAGE_SIZE_def str_int_def

text \<open>
  The example of claim C3: \<open>PAGE_SIZE\<close> features on page 1 and none on page 2 give
  exactly \<open>PAGE_SIZE\<close> features, after the two requests at offsets 0 and 2000.
\<close>

theorem paginate_stops_witness:
  "paginate two_pages ''1=1'' 0 []
     = (Completed, replicate 2000 (in_toronto june_2026), [0, 2000])"
proof -
  let ?p = "\<lambda>i::nat. if i = 0 then full_page else empty_page"
  have 1: "\<forall>i \<le> 1. two_pages (page_params ''1=1'' (i * PAGE_SIZE)) = Inr (?p i)"
    by (simp add: le_Suc_eq two_pages_def request_defs)
  have 2: "\<forall>i < 1. \<not> stops_at ?p i"
    by (simp add: stops_at_def pages_upto_def full_page_def PAGE_SIZE_def)
  have 3: "stops_at ?p 1"
    by (simp add: stops_at_def empty_page_def)
  have "pages_upto ?p 1 = replicate 2000 (in_toronto june_2026)"
    by (simp add: pages_upto_def full_page_def empty_page_def PAGE_SIZE_def)
  moreover have "map (\<lambda>i. i * PAGE_SIZE) [0..<Suc 1] = [0, 2000]"
    by (simp add: PAGE_SIZE_def)
  ultimately show ?thesis
    using paginate_stops[of 1 two_pages "''1=1''" ?p] 1 2 3 by simp
qed

lemma cutoff_ms0: "cutoff_ms env0 = 1778198400000"
  by (simp add: env0_def)

lemma fallback_strategies:
  "where_strategies env0 fallback_service ''auto''
     = [(''OCC_YEAR >= 2026'', ''year >= 2026''), (''1=1'', ''unfiltered (all records)'')]"
  by (simp add: where_strategies_def discover_fields_def fallback_service_def
      build_where_clauses_def theft_on_day_def in_toronto_def june_2026_def clock0 cutoff_ms0
      str_int_def)

lemma fallback_first: "paginate fallback_service ''OCC_YEAR >= 2026'' 0 [] = (Raised RuntimeError, [], [0])"
  by (subst paginate.simps) (simp add: fallback_service_def request_defs)

lemma fallback_last: "paginate fallback_service ''1=1'' 0 [] = (Completed, ten_thefts, [0])"
  by (subst paginate.simps) (simp add: fallback_service_def request_defs ten_thefts_def)

lemma key_on_day:
  "sort_key_py e (theft_on_day d) = Inr (Num (- (202606000000 + of_int d * 10000)))"
  by (simp add: sort_key_py_def theft_on_day_def in_toronto_def june_2026_def get_def
      get_default_def py_or_def is_epoch_ms_def sort_month_def MONTH_NAME_TO_NUM_def Let_def)

lemma ten_thefts_sorted: "sort_features e ten_thefts = Inr (rev ten_thefts)"
  by (simp add: sort_features_def ten_thefts_def key_on_day Num_le)

lemma three_thefts_sorted:
  "sort_features e [theft_on_day 1, theft_on_day 2, theft_on_day 3]
     = Inr [theft_on_day 3, theft_on_day 2, theft_on_day 1]"
  by (simp add: sort_features_def key_on_day Num_le)

lemma dead_strategies:
  "\<forall>s \<in> set (where_strategies env0 dead_service ''auto''). accumulated dead_service (fst s) = []"
proof -
  have "accumulated dead_service w = []" for w
    unfolding accumulated_def by (subst paginate.simps) (simp add: dead_service_def)
  then show ?thesis by simp
qed

lemma flaky_strategies:
  "where_strategies env0 flaky_service ''bike''
     = [(''OCC_YEAR >= 2026'', ''year >= 2026''),
        (''OCC_DATE >= 1778198400000'', ''OCC_DATE epoch >= 1778198400000''),
        (''REPORT_DATE >= 1778198400000'', ''REPORT_DATE epoch >= 1778198400000'')]
       @ [(''1=1'', ''unfiltered (all records)'')]"
  by (simp add: where_strategies_def discover_fields_def flaky_service_def
      build_where_clauses_def clock0 cutoff_ms0 request_defs)

lemma flaky_fails:
  "w \<noteq> ''1=1'' \<Longrightarrow> paginate flaky_service w 0 [] = (Raised URLError, [], [0])"
  by (subst paginate.simps) (simp add: flaky_service_def request_defs)

lemma flaky_last:
  "paginate flaky_service ''1=1'' 0 []
     = (Raised URLError, [theft_on_day 1, theft_on_day 2, theft_on_day 3], [0, 2000])"
  apply (subst paginate.simps)
  apply (simp add: flaky_service_def request_defs)
  apply (subst paginate.simps)
  apply (simp add: flaky_service_def request_defs)
  done

lemma fallback_run: "fetch_features env0 fallback_service ''auto'' = Inr (rev ten_thefts)"
proof -
  have "fst (fetch_raw env0 fallback_service ''auto'') = ten_thefts"
    unfolding fetch_raw_def fallback_strategies
    by (simp add: fallback_first fallback_last ten_thefts_def)
  then show ?thesis
    using ten_thefts_sorted by (simp add: fetch_features_def ten_thefts_def)
qed

text \<open>
  The example of claim C4: the service rejects the year filter and answers the
  unconditional one with ten features; the fetcher returns those ten, newest first. A
  service that fails every request yields the empty list.
\<close>

theorem strategy_fallback_witness:
  "fetch_raw env0 fallback_service ''auto''
     = (ten_thefts, [(''OCC_YEAR >= 2026'', 0), (''1=1'', 0)])
   \<and> length ten_thefts = 10
   \<and> fetch_features env0 fallback_service ''auto'' = Inr (rev ten_thefts)
   \<and> fetch_features env0 dead_service ''auto'' = Inr []"
proof -
  have f: "strategy_fails fallback_service ''OCC_YEAR >= 2026''"
    by (simp add: strategy_fails_def fallback_first)
  have h: "where_strategies env0 fallback_service ''auto''
        = [(''OCC_YEAR >= 2026'', ''year >= 2026'')]
          @ (''1=1'', ''unfiltered (all records)'') # []
      \<and> (\<forall>s \<in> set [(''OCC_YEAR >= 2026'', ''year >= 2026'')].
            strategy_fails fallback_service (fst s))
      \<and> paginate fallback_service ''1=1'' 0 [] = (Completed, ten_thefts, [0])
      \<and> ten_thefts \<noteq> []"
    using f by (simp add: fallback_strategies fallback_last ten_thefts_def)
  have r: "requested fallback_service ''OCC_YEAR >= 2026'' = [(''OCC_YEAR >= 2026'', 0)]"
    by (simp add: requested_def fallback_first)
  from strategy_fallback[of env0 fallback_service "''auto''"
      "[(''OCC_YEAR >= 2026'', ''year >= 2026'')]" "''1=1''" "''unfiltered (all records)''"
      "[]" ten_thefts "[0]"] h
  have 1: "fetch_raw env0 fallback_service ''auto''
          = (ten_thefts,
             concat (map (\<lambda>s. requested fallback_service (fst s))
                      [(''OCC_YEAR >= 2026'', ''year >= 2026'')])
             @ map (Pair ''1=1'') [0])"
    and 2: "fetch_features env0 fallback_service ''auto'' = sort_features env0 ten_thefts"
    by blast+
  from strategy_fallback[of env0 dead_service "''auto''"] dead_strategies
  have 3: "fetch_features env0 dead_service ''auto'' = Inr []"
    by blast
  from 1 2 3 show ?thesis
    using r ten_thefts_sorted by (simp add: ten_thefts_def)
qed










theorem partial_accumulation_returned_witness:
  "paginate flaky_service ''1=1'' 0 []
     = (Raised URLError, [theft_on_day 1, theft_on_day 2, theft_on_day 3], [0, 2000])
   \<and> fetch_features env0 flaky_service ''bike''
       = Inr [theft_on_day 3, theft_on_day 2, theft_on_day 1]"
proof -
  have "\<forall>s \<in> set [(''OCC_YEAR >= 2026'', ''year >= 2026''),
        (''OCC_DATE >= 1778198400000'', ''OCC_DATE epoch >= 1778198400000''),
        (''REPORT_DATE >= 1778198400000'', ''REPORT_DATE epoch >= 1778198400000'')].
      strategy_fails flaky_service (fst s)"
    by (simp add: strategy_fails_def flaky_fails)
  from partial_accumulation_returned[OF flaky_strategies this flaky_last]
  show ?thesis
    using flaky_last three_thefts_sorted by simp
qed

end
